theory Spec2Isabelle
  imports Main
begin

section \<open>The catalog code generator (src/catgen/catalog.py)\<close>

text \<open>
  The generator reads a list of class descriptors and writes, for every class, one Java
  source file (function \<open>genjava\<close>) and one C++ header/definition pair (function
  \<open>gencpp\<close>). The embedding keeps the structure of the Python source: every
  \<open>write( ... )\<close> call of the source is one chunk of text appended to the file that is
  open at that point, every \<open>raise\<close> and every failing index \<open>x[-1]\<close> is an error
  value, and the file system is an explicit state.
\<close>

subsection \<open>Python string primitives used by the generator\<close>

text \<open>
  Python 2 byte strings: \<open>lower\<close>, \<open>upper\<close> and \<open>capitalize\<close> act on the ASCII
  letters only; \<open>rstrip(c)\<close> removes every trailing occurrence of \<open>c\<close>; \<open>x[:-1]\<close>
  is \<open>butlast\<close> (the empty string stays empty).
\<close>

definition lower_char :: "char \<Rightarrow> char" where
  "lower_char c =
     (case map_of (zip ''ABCDEFGHIJKLMNOPQRSTUVWXYZ'' ''abcdefghijklmnopqrstuvwxyz'') c of
        Some l \<Rightarrow> l | None \<Rightarrow> c)"

definition upper_char :: "char \<Rightarrow> char" where
  "upper_char c =
     (case map_of (zip ''abcdefghijklmnopqrstuvwxyz'' ''ABCDEFGHIJKLMNOPQRSTUVWXYZ'') c of
        Some u \<Rightarrow> u | None \<Rightarrow> c)"

definition lower :: "string \<Rightarrow> string" where
  "lower s = map lower_char s"

definition upper :: "string \<Rightarrow> string" where
  "upper s = map upper_char s"

fun capitalize :: "string \<Rightarrow> string" where
  "capitalize [] = []"
| "capitalize (c # cs) = upper_char c # map lower_char cs"

definition rstrip :: "char \<Rightarrow> string \<Rightarrow> string" where
  "rstrip c s = rev (dropWhile (\<lambda>x. x = c) (rev s))"

fun join :: "string \<Rightarrow> string list \<Rightarrow> string" where
  "join sep [] = []"
| "join sep [a] = a"
| "join sep (a # b # r) = a @ sep @ join sep (b # r)"

subsection \<open>Descriptors, errors and emitted text\<close>

text \<open>
  Modelled from the spec: the classes \<open>Class\<close> and \<open>Field\<close> of \<open>catalog_utils\<close>
  (with their \<open>has_comment\<close>) are not part of the source at hand. A class descriptor
  has a name, an optional doc comment and an ordered field list; a field descriptor has
  a name, a raw type token and an optional doc comment. \<open>has_comment()\<close> is the
  comment being present, a \<open>case\<close> on the option below.
\<close>

record field =
  field_name :: string
  field_type :: string
  field_comment :: "string option"

record cls =
  cls_name :: string
  cls_comment :: "string option"
  cls_fields :: "field list"

text \<open>
  The two text constants \<open>gpl_header\<close> and \<open>auto_gen_warning\<close> come from
  \<open>catalog_utils\<close> as well and are parameters here. \<open>dict_keys\<close> stands for the
  iteration order of a Python 2 dictionary whose keys were inserted in the given order.
\<close>

record env =
  gpl_header :: string
  auto_gen_warning :: string
  dict_keys :: "string list \<Rightarrow> string list"

datatype error = BadType string | IndexError

text \<open>
  What a stretch of generator code did: the chunks it wrote, in order, and the exception
  that stopped it, if any. Chunks written before an exception stay written.
  \<open>write_line\<close> is the \<open>write\<close> closure that \<open>writer(f)\<close> returns: the
  arguments joined by single spaces, followed by a newline.
\<close>

type_synonym emit = "string list \<times> error option"

definition line :: "string \<Rightarrow> string" where
  "line s = s @ ''\<newline>''"

definition write_line :: "string list \<Rightarrow> emit" where
  "write_line args = ([line (join '' '' args)], None)"

definition skip :: emit where
  "skip = ([], None)"

definition raise :: "error \<Rightarrow> emit" where
  "raise e = ([], Some e)"

fun then_emit :: "emit \<Rightarrow> emit \<Rightarrow> emit" where
  "then_emit (ls, Some e) b = (ls, Some e)"
| "then_emit (ls, None) b = (ls @ fst b, snd b)"

fun bind_err :: "error + 'a \<Rightarrow> ('a \<Rightarrow> emit) \<Rightarrow> emit" where
  "bind_err (Inl e) k = raise e"
| "bind_err (Inr v) k = k v"

fun for_each :: "'a list \<Rightarrow> ('a \<Rightarrow> emit) \<Rightarrow> emit" where
  "for_each [] body = skip"
| "for_each (x # xs) body = then_emit (body x) (for_each xs body)"

fun block :: "emit list \<Rightarrow> emit" where
  "block [] = skip"
| "block (s # ss) = then_emit s (block ss)"

text \<open>\<open>x[-1]\<close>: the last character, \<open>IndexError\<close> on the empty string.\<close>

fun last_char :: "string \<Rightarrow> error + char" where
  "last_char [] = Inl IndexError"
| "last_char (c # cs) = Inr (last (c # cs))"

subsection \<open>Java code generation\<close>

text \<open>
  The three equality tests come first, as in the source; the next test reads
  \<open>x[-1]\<close>, which raises \<open>IndexError\<close> on the empty token; \<open>rstrip\<close> then
  removes every trailing marker, not only the last one.
\<close>

definition javatypify :: "string \<Rightarrow> error + string" where
  "javatypify x =
     (if x = ''string'' then Inr ''String''
      else if x = ''int'' then Inr ''int''
      else if x = ''bool'' then Inr ''boolean''
      else if x = [] then Inl IndexError
      else if last x = CHR ''*'' then Inr (''CatalogMap<'' @ rstrip (CHR ''*'') x @ ''>'')
      else if last x = CHR ''?'' then Inr (rstrip (CHR ''?'') x)
      else Inl (BadType x))"

definition javaobjectify :: "string \<Rightarrow> error + string" where
  "javaobjectify x =
     (if x = ''string'' then Inr ''String''
      else if x = ''int'' then Inr ''Integer''
      else if x = ''bool'' then Inr ''Boolean''
      else if x = [] then Inl IndexError
      else if last x = CHR ''*'' then Inr (''CatalogMap<'' @ rstrip (CHR ''*'') x @ ''>'')
      else if last x = CHR ''?'' then Inr (rstrip (CHR ''?'') x)
      else Inl (BadType x))"

text \<open>
  The sections of the per-class loop body of \<open>genjava\<close>, in source order; the
  body of a \<open>for field in cls.fields\<close> loop is a definition of its own, named
  after its section. A
  \<open>$name\<close> placeholder of \<open>interp\<close> is the value of that local variable, spliced
  into the template. Where \<open>field.type[-1]\<close> follows a successful \<open>javatypify\<close>
  of the same token in the same iteration the token is non-empty and the index is
  \<open>last\<close>; everywhere else it goes through \<open>last_char\<close>. Local variables
  that the source assigns and never uses (\<open>pkgdir\<close>, \<open>realtype\<close> outside
  \<open>setBaseValues\<close>, \<open>Pubname\<close>) are left out.
\<close>

definition java_preamble :: "env \<Rightarrow> string \<Rightarrow> cls \<Rightarrow> emit" where
  \<open>java_preamble e package c = block [
     write_line [gpl_header e],
     write_line [auto_gen_warning e],
     write_line [''package'', package @ '';\<newline>''],
     (case cls_comment c of
        Some cm \<Rightarrow> block [write_line [''/**\<newline> *'', cm], write_line ['' */'']]
      | None \<Rightarrow> skip),
     write_line [''public class '' @ cls_name c @ '' extends CatalogType {\<newline>'']]\<close>

definition java_fields_body :: "field \<Rightarrow> emit" where
  \<open>java_fields_body field =
     bind_err (javatypify (field_type field)) (\<lambda>ftype.
       let fname = field_name field in
       if ftype = ''String'' then
         write_line [''    String m_'' @ fname @ '' = new String();'']
       else if last (field_type field) = CHR ''?'' then
         write_line [''    Catalog.CatalogReference<'' @ ftype @ ''> m_'' @ fname
                @ '' = new CatalogReference<>();'']
       else
         write_line [''    '' @ ftype @ '' m_'' @ fname @ '';''])\<close>

definition java_fields :: "cls \<Rightarrow> emit" where
  \<open>java_fields c = block [
     for_each (cls_fields c) java_fields_body,
     write_line [[]]]\<close>

definition java_setBaseValues_body :: "field \<Rightarrow> emit" where
  \<open>java_setBaseValues_body field =
     bind_err (javatypify (field_type field)) (\<lambda>ftype.
       let fname = field_name field; realtype = butlast (field_type field) in
       if last (field_type field) = CHR ''*'' then
         write_line [''        m_'' @ fname @ '' = new '' @ ftype @ ''(getCatalog(), this, "''
                @ fname @ ''", '' @ realtype @ ''.class, m_parentMap.m_depth + 1);'']
       else skip)\<close>

definition java_setBaseValues :: "cls \<Rightarrow> emit" where
  \<open>java_setBaseValues c = block [
     write_line [''    void setBaseValues(CatalogMap<? extends CatalogType> parentMap, String name) {''],
     write_line [''        super.setBaseValues(parentMap, name);''],
     for_each (cls_fields c) java_setBaseValues_body,
     write_line [''    }\<newline>'']]\<close>

definition java_getFields_body :: "field \<Rightarrow> emit" where
  \<open>java_getFields_body field =
     bind_err (last_char (field_type field)) (\<lambda>t.
       if t \<noteq> CHR ''*'' then
         write_line [''            "'' @ field_name field @ ''",'']
       else skip)\<close>

definition java_getFields :: "cls \<Rightarrow> emit" where
  \<open>java_getFields c = block [
     write_line [''    public String[] getFields() {''],
     write_line [''        return new String[] {''],
     for_each (cls_fields c) java_getFields_body,
     write_line [''        };''],
     write_line [''    };\<newline>'']]\<close>

definition java_getChildCollections_body :: "field \<Rightarrow> emit" where
  \<open>java_getChildCollections_body field =
     bind_err (last_char (field_type field)) (\<lambda>t.
       if t = CHR ''*'' then
         write_line [''            "'' @ field_name field @ ''",'']
       else skip)\<close>

definition java_getChildCollections :: "cls \<Rightarrow> emit" where
  \<open>java_getChildCollections c = block [
     write_line [''    String[] getChildCollections() {''],
     write_line [''        return new String[] {''],
     for_each (cls_fields c) java_getChildCollections_body,
     write_line [''        };''],
     write_line [''    };\<newline>'']]\<close>

definition java_getField_body :: "field \<Rightarrow> emit" where
  \<open>java_getField_body field =
    (let fname = field_name field; methname = capitalize fname in
     block [
       write_line [''        case "'' @ fname @ ''":''],
       write_line [''            return get'' @ methname @ ''();'']])\<close>

definition java_getField :: "cls \<Rightarrow> emit" where
  \<open>java_getField c = block [
     write_line [''    public Object getField(String field) {''],
     write_line [''        switch (field) {''],
     for_each (cls_fields c) java_getField_body,
     write_line [''        default:''],
     write_line [''            throw new CatalogException("Unknown field");''],
     write_line [''        }''],
     write_line [''    }\<newline>'']]\<close>

definition java_getters_body :: "field \<Rightarrow> emit" where
  \<open>java_getters_body field =
     bind_err (javatypify (field_type field)) (\<lambda>ftype.
       let fname = field_name field; methname = capitalize fname in
       block [
         (case field_comment field of
            Some cm \<Rightarrow> write_line [''    /** GETTER:'', cm, ''*/'']
          | None \<Rightarrow> skip),
         write_line [''    public '' @ ftype @ '' get'' @ methname @ ''() {''],
         (if last (field_type field) = CHR ''?'' then
            write_line [''        return m_'' @ fname @ ''.get();'']
          else
            write_line [''        return m_'' @ fname @ '';'']),
         write_line [''    }\<newline>'']])\<close>

definition java_getters :: "cls \<Rightarrow> emit" where
  \<open>java_getters c =
     for_each (cls_fields c) java_getters_body\<close>

definition java_setters_body :: "field \<Rightarrow> emit" where
  \<open>java_setters_body field =
     bind_err (javatypify (field_type field)) (\<lambda>ftype.
       let fname = field_name field; methname = capitalize fname in
       if last (field_type field) = CHR ''*'' then skip
       else block [
         (case field_comment field of
            Some cm \<Rightarrow> write_line [''    /** SETTER:'', cm, ''*/'']
          | None \<Rightarrow> skip),
         write_line [''    public void set'' @ methname @ ''('' @ ftype @ '' value) {''],
         (if last (field_type field) = CHR ''?'' then
            write_line [''        m_'' @ fname @ ''.set(value);'']
          else
            write_line [''        m_'' @ fname @ '' = value;'']),
         write_line [''    }\<newline>'']])\<close>

definition java_setters :: "cls \<Rightarrow> emit" where
  \<open>java_setters c =
     for_each (cls_fields c) java_setters_body\<close>

definition java_set_body :: "field \<Rightarrow> emit" where
  \<open>java_set_body field =
     bind_err (last_char (field_type field)) (\<lambda>t.
       if t = CHR ''*'' then skip
       else
         let fname = field_name field in
         bind_err (javatypify (field_type field)) (\<lambda>ftype. block [
           write_line [''        case "'' @ fname @ ''":''],
           (if last (field_type field) = CHR ''?'' then block [
              write_line [''            value = value.trim();''],
              write_line [''            if (value.startsWith("null")) value = null;''],
              write_line [''            assert((value == null) || value.startsWith("/"));''],
              write_line [''            m_'' @ fname @ ''.setUnresolved(value);'']]
            else if ftype = ''int'' then block [
              write_line [''            assert(value != null);''],
              write_line [''            m_'' @ fname @ '' = Integer.parseInt(value);'']]
            else if ftype = ''boolean'' then block [
              write_line [''            assert(value != null);''],
              write_line [''            m_'' @ fname @ '' = Boolean.parseBoolean(value);'']]
            else if ftype = ''String'' then block [
              write_line [''            value = value.trim();''],
              write_line [''            if (value.startsWith("null")) value = null;''],
              write_line [''            if (value != null) {''],
              write_line [''                assert(value.startsWith("'' @ [CHR 0x5C]
                          @ ''"") && value.endsWith("'' @ [CHR 0x5C] @ ''""));''],
              write_line [''                value = value.substring(1, value.length() - 1);''],
              write_line [''            }''],
              write_line [''            m_'' @ fname @ '' = value;'']]
            else skip),
           write_line [''            break;'']]))\<close>

definition java_set :: "cls \<Rightarrow> emit" where
  \<open>java_set c = block [
     write_line [''    @Override''],
     write_line [''    void set(String field, String value) {''],
     write_line [''        if ((field == null) || (value == null)) {''],
     write_line [''            throw new CatalogException("Null value where it shouldn't be.");''],
     write_line [''        }\<newline>''],
     write_line [''        switch (field) {''],
     for_each (cls_fields c) java_set_body,
     write_line [''        default:''],
     write_line [''            throw new CatalogException("Unknown field");''],
     write_line [''        }''],
     write_line [''    }\<newline>'']]\<close>

definition java_copyFields_body :: "field \<Rightarrow> emit" where
  \<open>java_copyFields_body field =
     bind_err (javatypify (field_type field)) (\<lambda>ftype.
       let fname = field_name field in
       if ftype \<in> set [''int'', ''boolean'', ''String''] then
         write_line [''        other.m_'' @ fname @ '' = m_'' @ fname @ '';'']
       else if last (field_type field) = CHR ''?'' then
         write_line [''        other.m_'' @ fname @ ''.setUnresolved(m_'' @ fname
                     @ ''.getPath());'']
       else if last (field_type field) = CHR ''*'' then
         write_line [''        other.m_'' @ fname @ ''.copyFrom(m_'' @ fname @ '');'']
       else skip)\<close>

definition java_copyFields :: "cls \<Rightarrow> emit" where
  \<open>java_copyFields c = block [
     write_line [''    @Override''],
     write_line [''    void copyFields(CatalogType obj) {''],
     (if length (cls_fields c) > 0 then block [
        write_line [''        // this is safe from the caller''],
        write_line [''        '' @ cls_name c @ '' other = ('' @ cls_name c @ '') obj;\<newline>''],
        for_each (cls_fields c) java_copyFields_body]
      else skip),
     write_line [''    }\<newline>'']]\<close>

definition java_equals_body :: "field \<Rightarrow> emit" where
  \<open>java_equals_body field =
     bind_err (javatypify (field_type field)) (\<lambda>ftype.
       let fname = field_name field in
       if ftype \<in> set [''int'', ''boolean''] then
         write_line [''        if (m_'' @ fname @ '' != other.m_'' @ fname @ '') return false;'']
       else block [
         write_line [''        if ((m_'' @ fname @ '' == null) != (other.m_'' @ fname
                     @ '' == null)) return false;''],
         write_line [''        if ((m_'' @ fname @ '' != null) && !m_'' @ fname
                     @ ''.equals(other.m_'' @ fname @ '')) return false;'']])\<close>

definition java_equals :: "cls \<Rightarrow> emit" where
  \<open>java_equals c = block [
     write_line [''    public boolean equals(Object obj) {''],
     write_line [''        // this isn't really the convention for null handling''],
     write_line [''        if ((obj == null) || (obj.getClass().equals(getClass()) == false))''],
     write_line [''            return false;\<newline>''],
     write_line [''        // Do the identity check''],
     write_line [''        if (obj == this)''],
     write_line [''            return true;\<newline>''],
     write_line [''        // this is safe because of the class check''],
     write_line [''        // it is also known that the childCollections var will be the same''],
     write_line [''        //  from the class check''],
     write_line [''        '' @ cls_name c @ '' other = ('' @ cls_name c @ '') obj;\<newline>''],
     write_line [''        // are the fields / children the same? (deep compare)''],
     for_each (cls_fields c) java_equals_body,
     write_line [[]],
     write_line [''        return true;''],
     write_line [''    }\<newline>'']]\<close>

text \<open>Everything \<open>genjava\<close> writes into the file of one class, up to an exception.\<close>

definition genjava_class :: "env \<Rightarrow> string \<Rightarrow> cls \<Rightarrow> emit" where
  "genjava_class e package c = block [
     java_preamble e package c,
     java_fields c,
     java_setBaseValues c,
     java_getFields c,
     java_getChildCollections c,
     java_getField c,
     java_getters c,
     java_setters c,
     java_set c,
     java_copyFields c,
     java_equals c,
     write_line [''}'']]"

subsection \<open>C++ code generation\<close>

definition cpptypify :: "string \<Rightarrow> error + string" where
  "cpptypify x =
     (if x = ''string'' then Inr ''std::string''
      else if x = ''int'' then Inr ''int32_t''
      else if x = ''bool'' then Inr ''bool''
      else if x = [] then Inl IndexError
      else if last x = CHR ''*'' then Inr (''CatalogMap<'' @ rstrip (CHR ''*'') x @ ''>'')
      else if last x = CHR ''?'' then Inr ''CatalogType*''
      else Inl (BadType x))"

text \<open>
  The list \<open>referencedClasses\<close> of a class: the loop appends \<open>field.type[:-1]\<close> of
  every field whose token ends in a marker, unless it is in the list already; afterwards
  the class's own name is removed.
\<close>

fun collect_referenced :: "field list \<Rightarrow> string list \<Rightarrow> error + string list" where
  "collect_referenced [] referenced = Inr referenced"
| "collect_referenced (field # rest) referenced =
     (case last_char (field_type field) of
        Inl e \<Rightarrow> Inl e
      | Inr t \<Rightarrow>
          let classType = butlast (field_type field) in
          if t = CHR ''*'' \<or> t = CHR ''?'' then
            (if classType \<notin> set referenced
             then collect_referenced rest (referenced @ [classType])
             else collect_referenced rest referenced)
          else collect_referenced rest referenced)"

definition referencedClasses :: "cls \<Rightarrow> error + string list" where
  "referencedClasses c =
     (case collect_referenced (cls_fields c) [] of
        Inl e \<Rightarrow> Inl e
      | Inr referenced \<Rightarrow>
          Inr (if cls_name c \<in> set referenced then remove1 (cls_name c) referenced
               else referenced))"

text \<open>
  A list comprehension \<open>[... for field in cls.fields if field.type[-1] ...]\<close>: the
  fields it keeps, or the \<open>IndexError\<close> of the first empty token.
\<close>

fun select_fields :: "(char \<Rightarrow> bool) \<Rightarrow> field list \<Rightarrow> error + field list" where
  "select_fields p [] = Inr []"
| "select_fields p (field # rest) =
     (case last_char (field_type field) of
        Inl e \<Rightarrow> Inl e
      | Inr t \<Rightarrow>
          (case select_fields p rest of
             Inl e \<Rightarrow> Inl e
           | Inr kept \<Rightarrow> Inr (if p t then field # kept else kept)))"

definition cpp_header :: "env \<Rightarrow> cls \<Rightarrow> string list \<Rightarrow> emit" where
  \<open>cpp_header e c referenced =
    (let clsname = cls_name c; pp_unique_str = ''CATALOG_'' @ upper clsname @ ''_H_'' in
     block [
       write_line [gpl_header e],
       write_line [auto_gen_warning e],
       write_line [''#ifndef'', pp_unique_str],
       write_line [''#define'', pp_unique_str],
       write_line [[]],
       write_line [''#include <string>''],
       write_line [''#include "catalogtype.h"''],
       write_line [''#include "catalogmap.h"\<newline>''],
       write_line [''namespace catalog {\<newline>''],
       for_each referenced (\<lambda>classType. write_line [''class '' @ classType @ '';'']),
       (case cls_comment c of
          Some cm \<Rightarrow> block [write_line [''/**\<newline> *'', cm], write_line ['' */'']]
        | None \<Rightarrow> skip),
       write_line [''class '' @ clsname @ '' : public CatalogType {''],
       write_line [''    friend class Catalog;''],
       write_line [''    friend class CatalogMap<'' @ clsname @ ''>;''],
       write_line [''\<newline>protected:''],
       write_line [''    '' @ clsname @ ''(Catalog * catalog, CatalogType * parent, const std::string &path, const std::string &name);''],
       for_each (cls_fields c) (\<lambda>field.
         bind_err (cpptypify (field_type field)) (\<lambda>ftype.
           let privname = ''m_'' @ field_name field in
           write_line [''    '' @ ftype @ '' '' @ privname @ '';''])),
       write_line [''\<newline>    virtual void update();\<newline>''],
       write_line [''    virtual CatalogType * addChild(const std::string &collectionName, const std::string &name);''],
       write_line [''    virtual CatalogType * getChild(const std::string &collectionName, const std::string &childName) const;''],
       write_line [''    virtual bool removeChild(const std::string &collectionName, const std::string &childName);''],
       write_line [''\<newline>public:''],
       write_line [''    ~'' @ clsname @ ''();\<newline>''],
       for_each (cls_fields c) (\<lambda>field.
         bind_err (cpptypify (field_type field)) (\<lambda>ftype.
           let pubname = field_name field in
           block [
             (case field_comment field of
                Some cm \<Rightarrow> write_line [''    /** GETTER:'', cm, ''*/'']
              | None \<Rightarrow> skip),
             (if field_type field = ''string'' then
                write_line [''    const std::string & '' @ pubname @ ''() const;'']
              else if last (field_type field) = CHR ''?'' then
                write_line [''    const '' @ butlast (field_type field) @ '' * '' @ pubname
                            @ ''() const;'']
              else if last (field_type field) = CHR ''*'' then
                write_line [''    const '' @ ftype @ '' & '' @ pubname @ ''() const;'']
              else
                write_line [''    '' @ ftype @ '' '' @ pubname @ ''() const;''])])),
       write_line [''};\<newline>''],
       write_line [''} // namespace catalog\<newline>''],
       write_line [''#endif // '', pp_unique_str]])\<close>

definition cpp_includes :: "env \<Rightarrow> cls \<Rightarrow> emit" where
  \<open>cpp_includes e c =
    (let filename = lower (cls_name c) in
     block [
       write_line [gpl_header e],
       write_line [auto_gen_warning e],
       write_line [''#include <cassert>''],
       write_line [''#include "'' @ filename @ ''.h"''],
       write_line [''#include "catalog.h"''],
       bind_err (select_fields (\<lambda>t. t \<in> set [CHR ''*'', CHR ''?'']) (cls_fields c)) (\<lambda>kept.
         let otherhdrs =
           map (\<lambda>field. ''#include "'' @ lower (butlast (field_type field)) @ ''.h"'') kept
         in for_each (dict_keys e otherhdrs) (\<lambda>hdr. write_line [hdr])),
       write_line [''\<newline>using namespace catalog;''],
       write_line [''using namespace std;\<newline>'']])\<close>

definition cpp_constructor_body :: "field \<Rightarrow> emit" where
  \<open>cpp_constructor_body field =
     bind_err (cpptypify (field_type field)) (\<lambda>ftype.
       let privname = ''m_'' @ field_name field; pubname = field_name field in
       if last (field_type field) = CHR ''*'' then
         write_line [''    m_childCollections["'' @ pubname @ ''"] = &'' @ privname @ '';'']
       else
         write_line [''    m_fields["'' @ pubname @ ''"] = value;''])\<close>

definition cpp_constructor :: "cls \<Rightarrow> emit" where
  \<open>cpp_constructor c =
    (let clsname = cls_name c in
     bind_err (select_fields (\<lambda>t. t = CHR ''*'') (cls_fields c)) (\<lambda>kept.
       let mapcons = map (\<lambda>field. ''m_'' @ field_name field @ ''(catalog)'') kept;
           comma = (if length mapcons \<noteq> 0 then '','' else [])
       in block [
         write_line [clsname @ ''::'' @ clsname
           @ ''(Catalog *catalog, CatalogType *parent, const string &path, const string &name)''],
         write_line ['': CatalogType(catalog, parent, path, name)'' @ comma],
         bind_err (select_fields (\<lambda>t. t = CHR ''*'') (cls_fields c)) (\<lambda>kept2.
           let mapcons2 = map (\<lambda>field. ''m_'' @ field_name field
                                 @ ''(catalog, this, path + "/" + "'' @ field_name field @ ''")'') kept2
           in if length mapcons2 > 0 then write_line [''  '' @ join '', '' mapcons2] else skip),
         write_line [''{''],
         write_line [''    CatalogValue value;''],
         for_each (cls_fields c) cpp_constructor_body,
         write_line [''}\<newline>'']]))\<close>

definition cpp_destructor_body :: "field \<Rightarrow> emit" where
  \<open>cpp_destructor_body field =
     bind_err (last_char (field_type field)) (\<lambda>t.
       if t = CHR ''*'' then
         let ftype = rstrip (CHR ''*'') (field_type field);
             itr = lower ftype @ ''_iter'';
             privname = ''m_'' @ field_name field;
             tab = ''   ''
         in block [
           write_line [tab @ '' std::map<std::string, '' @ ftype @ ''*>::const_iterator ''
                       @ itr @ '' = '' @ privname @ ''.begin();''],
           write_line [tab @ '' while ('' @ itr @ '' != '' @ privname @ ''.end()) {''],
           write_line [tab @ '' '' @ tab @ '' delete '' @ itr @ ''->second;''],
           write_line [tab @ '' '' @ tab @ '' '' @ itr @ ''++;''],
           write_line [tab @ '' }''],
           write_line [tab @ '' '' @ privname @ ''.clear();\<newline>'']]
       else skip)\<close>

definition cpp_destructor :: "cls \<Rightarrow> emit" where
  \<open>cpp_destructor c =
    (let clsname = cls_name c in
     block [
       write_line [clsname @ ''::~'' @ clsname @ ''() {''],
       for_each (cls_fields c) cpp_destructor_body,
       write_line [''}\<newline>'']])\<close>

definition cpp_update_body :: "field \<Rightarrow> emit" where
  \<open>cpp_update_body field =
     bind_err (cpptypify (field_type field)) (\<lambda>ftype.
       let privname = ''m_'' @ field_name field; pubname = field_name field in
       if last (field_type field) = CHR ''?'' then
         let ext = ''typeValue'' in
         write_line [''    '' @ privname @ '' = m_fields["'' @ pubname @ ''"].'' @ ext @ '';'']
       else if last (field_type field) \<noteq> CHR ''*'' then
         let ext = (if ftype = ''std::string'' then ''strValue.c_str()'' else ''intValue'') in
         write_line [''    '' @ privname @ '' = m_fields["'' @ pubname @ ''"].'' @ ext @ '';'']
       else skip)\<close>

definition cpp_update :: "cls \<Rightarrow> emit" where
  \<open>cpp_update c = block [
     write_line [''void '' @ cls_name c @ ''::update() {''],
     for_each (cls_fields c) cpp_update_body,
     write_line [''}\<newline>'']]\<close>

definition cpp_addChild_body :: "field \<Rightarrow> emit" where
  \<open>cpp_addChild_body field =
     bind_err (last_char (field_type field)) (\<lambda>t.
       if t = CHR ''*'' then
         let privname = ''m_'' @ field_name field; pubname = field_name field in
         block [
           write_line [''    if (collectionName.compare("'' @ pubname @ ''") == 0) {''],
           write_line [''        CatalogType *exists = '' @ privname @ ''.get(childName);''],
           write_line [''        if (exists)\<newline>            return NULL;''],
           write_line [''        return '' @ privname @ ''.add(childName);\<newline>    }'']]
       else skip)\<close>

definition cpp_addChild :: "cls \<Rightarrow> emit" where
  \<open>cpp_addChild c = block [
     write_line [''CatalogType * '' @ cls_name c
       @ ''::addChild(const std::string &collectionName, const std::string &childName) {''],
     for_each (cls_fields c) cpp_addChild_body,
     write_line [''    return NULL;\<newline>}\<newline>'']]\<close>

definition cpp_getChild_body :: "field \<Rightarrow> emit" where
  \<open>cpp_getChild_body field =
     bind_err (last_char (field_type field)) (\<lambda>t.
       if t = CHR ''*'' then
         let privname = ''m_'' @ field_name field; pubname = field_name field in
         block [
           write_line [''    if (collectionName.compare("'' @ pubname @ ''") == 0)''],
           write_line [''        return '' @ privname @ ''.get(childName);'']]
       else skip)\<close>

definition cpp_getChild :: "cls \<Rightarrow> emit" where
  \<open>cpp_getChild c = block [
     write_line [''CatalogType * '' @ cls_name c
       @ ''::getChild(const std::string &collectionName, const std::string &childName) const {''],
     for_each (cls_fields c) cpp_getChild_body,
     write_line [''    return NULL;\<newline>}\<newline>'']]\<close>

definition cpp_removeChild_body :: "field \<Rightarrow> emit" where
  \<open>cpp_removeChild_body field =
     bind_err (last_char (field_type field)) (\<lambda>t.
       if t = CHR ''*'' then
         let privname = ''m_'' @ field_name field; pubname = field_name field in
         block [
           write_line [''    if (collectionName.compare("'' @ pubname @ ''") == 0) {''],
           write_line [''        return '' @ privname @ ''.remove(childName);''],
           write_line [''    }'']]
       else skip)\<close>

definition cpp_removeChild :: "cls \<Rightarrow> emit" where
  \<open>cpp_removeChild c = block [
     write_line [''bool '' @ cls_name c
       @ ''::removeChild(const std::string &collectionName, const std::string &childName) {''],
     write_line [''    assert (m_childCollections.find(collectionName) != m_childCollections.end());''],
     for_each (cls_fields c) cpp_removeChild_body,
     write_line [''    return false;''],
     write_line [''}\<newline>'']]\<close>

definition cpp_getters_body :: "string \<Rightarrow> field \<Rightarrow> emit" where
  \<open>cpp_getters_body clsname field =
     bind_err (cpptypify (field_type field)) (\<lambda>ftype.
       let privname = ''m_'' @ field_name field; pubname = field_name field;
           outertype = butlast (field_type field)
       in
       if field_type field = ''string'' then
         write_line [''const string & '' @ clsname @ ''::'' @ pubname
                     @ ''() const {\<newline>    return '' @ privname @ '';\<newline>}\<newline>'']
       else if last (field_type field) = CHR ''?'' then block [
         write_line [''const '' @ outertype @ '' * '' @ clsname @ ''::'' @ pubname @ ''() const {''],
         write_line [''    return dynamic_cast<'' @ outertype @ ''*>('' @ privname
                     @ '');\<newline>}\<newline>'']]
       else if last (field_type field) = CHR ''*'' then
         write_line [''const '' @ ftype @ '' & '' @ clsname @ ''::'' @ pubname
                     @ ''() const {\<newline>    return '' @ privname @ '';\<newline>}\<newline>'']
       else
         write_line [ftype @ '' '' @ clsname @ ''::'' @ pubname
                     @ ''() const {\<newline>    return '' @ privname @ '';\<newline>}\<newline>''])\<close>

definition cpp_getters :: "cls \<Rightarrow> emit" where
  \<open>cpp_getters c =
    (let clsname = cls_name c in
     for_each (cls_fields c) (cpp_getters_body clsname))\<close>

text \<open>Everything \<open>gencpp\<close> writes into the definition file of one class.\<close>

definition cpp_source :: "env \<Rightarrow> cls \<Rightarrow> emit" where
  "cpp_source e c = block [
     cpp_includes e c,
     cpp_constructor c,
     cpp_destructor c,
     cpp_update c,
     cpp_addChild c,
     cpp_getChild c,
     cpp_removeChild c,
     cpp_getters c]"

subsection \<open>The file system and the drivers\<close>

text \<open>
  The state the generator acts on: the files it has opened for writing, each with the
  chunks written to it so far, and the shell commands it has run through
  \<open>os.system\<close>, in order. \<open>file(path, 'w')\<close> creates or truncates the file;
  opening and writing are taken to succeed, and a shell command only leaves its trace in
  the command list.
\<close>

record world =
  files :: "string \<rightharpoonup> string list"
  commands :: "string list"

definition system :: "string \<Rightarrow> world \<Rightarrow> world" where
  "system cmd w = w\<lparr>commands := commands w @ [cmd]\<rparr>"

definition write_file :: "string \<Rightarrow> emit \<Rightarrow> world \<Rightarrow> error option \<times> world" where
  "write_file path em w = (snd em, w\<lparr>files := (files w)(path \<mapsto> fst em)\<rparr>)"

definition genjava_setup :: "string \<Rightarrow> string \<Rightarrow> string list" where
  "genjava_setup prepath postpath = [
     ''rm -rf '' @ postpath @ ''/*'',
     ''mkdir -p '' @ postpath @ ''/'',
     ''cp '' @ prepath @ ''/Catalog.java '' @ postpath,
     ''cp '' @ prepath @ ''/CatalogType.java '' @ postpath,
     ''cp '' @ prepath @ ''/CatalogMap.java '' @ postpath,
     ''cp '' @ prepath @ ''/CatalogException.java '' @ postpath,
     ''cp '' @ prepath @ ''/CatalogChangeGroup.java '' @ postpath,
     ''cp '' @ prepath @ ''/CatalogDiffEngine.java '' @ postpath,
     ''cp '' @ prepath @ ''/FilteredCatalogDiffEngine.java '' @ postpath]"

definition javapath :: "string \<Rightarrow> cls \<Rightarrow> string" where
  "javapath postpath c = postpath @ ''/'' @ cls_name c @ ''.java''"

fun genjava_classes ::
  "env \<Rightarrow> string \<Rightarrow> string \<Rightarrow> cls list \<Rightarrow> world \<Rightarrow> error option \<times> world" where
  "genjava_classes e postpath package [] w = (None, w)"
| "genjava_classes e postpath package (c # cs) w =
     (case write_file (javapath postpath c) (genjava_class e package c) w of
        (Some er, w') \<Rightarrow> (Some er, w')
      | (None, w') \<Rightarrow> genjava_classes e postpath package cs w')"

definition genjava ::
  "env \<Rightarrow> cls list \<Rightarrow> string \<Rightarrow> string \<Rightarrow> string \<Rightarrow> world \<Rightarrow> error option \<times> world" where
  "genjava e classes prepath postpath package w =
     genjava_classes e postpath package classes
       (foldl (\<lambda>w' cmd. system cmd w') w (genjava_setup prepath postpath))"

definition gencpp_setup :: "string \<Rightarrow> string \<Rightarrow> string list" where
  "gencpp_setup prepath postpath = [
     ''rm -rf '' @ postpath @ ''/*'',
     ''mkdir -p '' @ postpath @ ''/'',
     ''cp '' @ prepath @ ''/catalog.h '' @ postpath,
     ''cp '' @ prepath @ ''/catalogtype.h '' @ postpath,
     ''cp '' @ prepath @ ''/catalogmap.h '' @ postpath,
     ''cp '' @ prepath @ ''/catalog.cpp '' @ postpath,
     ''cp '' @ prepath @ ''/catalogtype.cpp '' @ postpath]"

fun gencpp_classes :: "env \<Rightarrow> string \<Rightarrow> cls list \<Rightarrow> world \<Rightarrow> error option \<times> world" where
  "gencpp_classes e postpath [] w = (None, w)"
| "gencpp_classes e postpath (c # cs) w =
     (case referencedClasses c of
        Inl er \<Rightarrow> (Some er, w)
      | Inr referenced \<Rightarrow>
          (case write_file (postpath @ ''/'' @ lower (cls_name c) @ ''.h'')
                  (cpp_header e c referenced) w of
             (Some er, w') \<Rightarrow> (Some er, w')
           | (None, w') \<Rightarrow>
               (case write_file (postpath @ ''/'' @ lower (cls_name c) @ ''.cpp'')
                       (cpp_source e c) w' of
                  (Some er, w'') \<Rightarrow> (Some er, w'')
                | (None, w'') \<Rightarrow> gencpp_classes e postpath cs w'')))"

definition gencpp ::
  "env \<Rightarrow> cls list \<Rightarrow> string \<Rightarrow> string \<Rightarrow> world \<Rightarrow> error option \<times> world" where
  "gencpp e classes prepath postpath w =
     gencpp_classes e postpath (rev classes)
       (foldl (\<lambda>w' cmd. system cmd w') w (gencpp_setup prepath postpath))"

text \<open>
  \<open>main\<close>, from the class list that the parser (\<open>parse\<close> of \<open>catalog_utils\<close>)
  returned for \<open>spec.txt\<close>: the Java tree first, the C++ tree after it.
\<close>

definition javapkg :: string where "javapkg = ''org.voltdb.catalog''"
definition cpp_postpath :: string where "cpp_postpath = ''out/cppsrc''"
definition cpp_prepath :: string where "cpp_prepath = ''in/cppsrc''"
definition java_prepath :: string where "java_prepath = ''in/javasrc''"
definition java_postpath :: string where "java_postpath = ''out/javasrc''"

definition main :: "env \<Rightarrow> cls list \<Rightarrow> world \<Rightarrow> error option \<times> world" where
  "main e classes w =
     (case genjava e classes java_prepath java_postpath javapkg w of
        (Some er, w') \<Rightarrow> (Some er, w')
      | (None, w') \<Rightarrow> gencpp e classes cpp_prepath cpp_postpath w')"

subsection \<open>The field kinds of the specification\<close>

text \<open>
  The classifier as the specification words it (section 4.1), for comparison with the
  generator's own tests on the raw token: the three exact scalar tokens first; then a
  token ending in \<open>*\<close> is a collection and a token ending in \<open>?\<close> a reference,
  in both cases of the class named by the token without its last character; any other
  token does not classify.
\<close>

datatype scalar_kind = SString | SInt | SBool

datatype field_kind = Scalar scalar_kind | Reference string | Collection string

definition spec_classify :: "string \<Rightarrow> field_kind option" where
  "spec_classify tok =
     (if tok = ''string'' then Some (Scalar SString)
      else if tok = ''int'' then Some (Scalar SInt)
      else if tok = ''bool'' then Some (Scalar SBool)
      else if tok \<noteq> [] \<and> last tok = CHR ''*'' then Some (Collection (butlast tok))
      else if tok \<noteq> [] \<and> last tok = CHR ''?'' then Some (Reference (butlast tok))
      else None)"

definition is_collection :: "field \<Rightarrow> bool" where
  "is_collection f = (case spec_classify (field_type f) of
                        Some (Collection t) \<Rightarrow> True | _ \<Rightarrow> False)"

definition is_scalar_or_reference :: "field \<Rightarrow> bool" where
  "is_scalar_or_reference f = (case spec_classify (field_type f) of
                                 Some (Scalar k) \<Rightarrow> True
                               | Some (Reference t) \<Rightarrow> True
                               | _ \<Rightarrow> False)"

text \<open>A class all of whose field tokens classify.\<close>

definition well_typed :: "cls \<Rightarrow> bool" where
  "well_typed c = list_all (\<lambda>f. spec_classify (field_type f) \<noteq> None) (cls_fields c)"

subsection \<open>The emitted routines as the specification describes them\<close>

text \<open>
  What the specification says the generic \<open>set(name, value)\<close> of the managed backend
  does for a field of each kind, written as the Java statements of one \<open>case\<close>:
  a base-10 parse for an int, a boolean literal parse for a bool; for a string, trim,
  the \<open>null\<close> sentinel, and otherwise the surrounding quote pair is required and
  stripped; for a reference, trim, the \<open>null\<close> sentinel, and the (possibly absent)
  path handed to \<open>setUnresolved\<close>. A collection field has no case.
\<close>

definition spec_set_case :: "field \<Rightarrow> string list" where
  \<open>spec_set_case f =
    (let fname = field_name f in
     case spec_classify (field_type f) of
       Some (Scalar SInt) \<Rightarrow> [
         ''        case "'' @ fname @ ''":'',
         ''            assert(value != null);'',
         ''            m_'' @ fname @ '' = Integer.parseInt(value);'',
         ''            break;'']
     | Some (Scalar SBool) \<Rightarrow> [
         ''        case "'' @ fname @ ''":'',
         ''            assert(value != null);'',
         ''            m_'' @ fname @ '' = Boolean.parseBoolean(value);'',
         ''            break;'']
     | Some (Scalar SString) \<Rightarrow> [
         ''        case "'' @ fname @ ''":'',
         ''            value = value.trim();'',
         ''            if (value.startsWith("null")) value = null;'',
         ''            if (value != null) {'',
         ''                assert(value.startsWith("'' @ [CHR 0x5C] @ ''"") && value.endsWith("''
           @ [CHR 0x5C] @ ''""));'',
         ''                value = value.substring(1, value.length() - 1);'',
         ''            }'',
         ''            m_'' @ fname @ '' = value;'',
         ''            break;'']
     | Some (Reference target) \<Rightarrow> [
         ''        case "'' @ fname @ ''":'',
         ''            value = value.trim();'',
         ''            if (value.startsWith("null")) value = null;'',
         ''            assert((value == null) || value.startsWith("/"));'',
         ''            m_'' @ fname @ ''.setUnresolved(value);'',
         ''            break;'']
     | _ \<Rightarrow> [])\<close>

text \<open>
  The Java type and the C++ storage type that the two emitters give a field of each
  kind. A reference is stored as a generic \<open>CatalogType*\<close> in C++.
\<close>

definition java_type_of_kind :: "field_kind \<Rightarrow> string" where
  "java_type_of_kind k =
     (case k of
        Scalar SString \<Rightarrow> ''String''
      | Scalar SInt \<Rightarrow> ''int''
      | Scalar SBool \<Rightarrow> ''boolean''
      | Collection target \<Rightarrow> ''CatalogMap<'' @ target @ ''>''
      | Reference target \<Rightarrow> target)"

definition cpp_type_of_kind :: "field_kind \<Rightarrow> string" where
  "cpp_type_of_kind k =
     (case k of
        Scalar SString \<Rightarrow> ''std::string''
      | Scalar SInt \<Rightarrow> ''int32_t''
      | Scalar SBool \<Rightarrow> ''bool''
      | Collection target \<Rightarrow> ''CatalogMap<'' @ target @ ''>''
      | Reference target \<Rightarrow> ''CatalogType*'')"

text \<open>A token whose last two characters are the same marker, as in \<open>Column**\<close>.\<close>

definition doubled_marker :: "string \<Rightarrow> bool" where
  "doubled_marker tok =
     (case rev tok of
        m # m' # rest \<Rightarrow> m = m' \<and> (m = CHR ''*'' \<or> m = CHR ''?'')
      | _ \<Rightarrow> False)"

text \<open>
  The exception of \<open>javatypify\<close> and \<open>cpptypify\<close> on a token that does not
  classify: \<open>x[-1]\<close> fails on the empty token, any other token is a bad type.
\<close>

definition classification_error :: "string \<Rightarrow> error" where
  "classification_error tok = (if tok = [] then IndexError else BadType tok)"

definition unclassified :: "field \<Rightarrow> bool" where
  "unclassified f = (spec_classify (field_type f) = None)"

text \<open>
  \<open>copyFields\<close> as the specification describes it: a plain assignment for a scalar,
  the unresolved path for a reference, a delegated \<open>copyFrom\<close> for a collection.
\<close>

definition spec_copy_case :: "field \<Rightarrow> string list" where
  \<open>spec_copy_case f =
    (let fname = field_name f in
     case spec_classify (field_type f) of
       Some (Scalar k) \<Rightarrow> [''        other.m_'' @ fname @ '' = m_'' @ fname @ '';'']
     | Some (Reference target) \<Rightarrow>
         [''        other.m_'' @ fname @ ''.setUnresolved(m_'' @ fname @ ''.getPath());'']
     | Some (Collection target) \<Rightarrow>
         [''        other.m_'' @ fname @ ''.copyFrom(m_'' @ fname @ '');'']
     | None \<Rightarrow> [])\<close>

text \<open>
  The comparison that \<open>equals\<close> makes for one field: \<open>!=\<close> on a member whose Java
  type is \<open>int\<close> or \<open>boolean\<close>, and for a member of any other type a null
  mismatch test followed by \<open>equals()\<close> on the member.
\<close>

definition spec_equals_case :: "field \<Rightarrow> string list" where
  \<open>spec_equals_case f =
    (let fname = field_name f in
     if javatypify (field_type f) = Inr ''int'' \<or> javatypify (field_type f) = Inr ''boolean'' then
       [''        if (m_'' @ fname @ '' != other.m_'' @ fname @ '') return false;'']
     else
       [''        if ((m_'' @ fname @ '' == null) != (other.m_'' @ fname @ '' == null)) return false;'',
        ''        if ((m_'' @ fname @ '' != null) && !m_'' @ fname @ ''.equals(other.m_'' @ fname
          @ '')) return false;''])\<close>

text \<open>
  The target class of a field, if it is a Reference or a Collection, and the target
  class names of a field list, in descriptor order.
\<close>

definition target_of :: "field \<Rightarrow> string option" where
  "target_of f =
     (case spec_classify (field_type f) of
        Some (Reference n) \<Rightarrow> Some n
      | Some (Collection n) \<Rightarrow> Some n
      | _ \<Rightarrow> None)"

definition targets :: "field list \<Rightarrow> string list" where
  "targets fs = List.map_filter target_of fs"

text \<open>
  The member of a \<open>CatalogValue\<close> that \<open>update()\<close> of the manual backend reads for
  a field of each kind, and the assignment it makes; a collection field is not refreshed.
\<close>

definition spec_update_member :: "field_kind \<Rightarrow> string option" where
  "spec_update_member k =
     (case k of
        Scalar SString \<Rightarrow> Some ''strValue.c_str()''
      | Scalar SInt \<Rightarrow> Some ''intValue''
      | Scalar SBool \<Rightarrow> Some ''intValue''
      | Reference target \<Rightarrow> Some ''typeValue''
      | Collection target \<Rightarrow> None)"

definition spec_update_line :: "field \<Rightarrow> string list" where
  \<open>spec_update_line f =
     (case spec_classify (field_type f) of
        None \<Rightarrow> []
      | Some k \<Rightarrow>
          (case spec_update_member k of
             None \<Rightarrow> []
           | Some member \<Rightarrow>
               [''    m_'' @ field_name f @ '' = m_fields["'' @ field_name f @ ''"].'' @ member @ '';'']))\<close>

text \<open>
  The dispatch arms of \<open>addChild\<close> and \<open>removeChild\<close> for one collection field, and
  the line by which the constructor registers a field: a collection in
  \<open>m_childCollections\<close>, any other field in the value table \<open>m_fields\<close>.
\<close>

definition spec_addChild_case :: "field \<Rightarrow> string list" where
  \<open>spec_addChild_case f =
     [''    if (collectionName.compare("'' @ field_name f @ ''") == 0) {'',
      ''        CatalogType *exists = m_'' @ field_name f @ ''.get(childName);'',
      ''        if (exists)\<newline>            return NULL;'',
      ''        return m_'' @ field_name f @ ''.add(childName);\<newline>    }'']\<close>

definition spec_removeChild_case :: "field \<Rightarrow> string list" where
  \<open>spec_removeChild_case f =
     [''    if (collectionName.compare("'' @ field_name f @ ''") == 0) {'',
      ''        return m_'' @ field_name f @ ''.remove(childName);'',
      ''    }'']\<close>

definition spec_register_line :: "field \<Rightarrow> string" where
  \<open>spec_register_line f =
     (if is_collection f
      then ''    m_childCollections["'' @ field_name f @ ''"] = &m_'' @ field_name f @ '';''
      else ''    m_fields["'' @ field_name f @ ''"] = value;'')\<close>

subsection \<open>Example descriptors\<close>

text \<open>
  \<open>ScenarioTable\<close> and \<open>Column\<close> are the two classes of the specification's
  end-to-end scenario; \<open>Table\<close> adds a boolean and a self-reference so that every
  field kind occurs; \<open>Index\<close> has a field whose token \<open>float\<close> does not classify.
\<close>

definition example_env :: env where
  "example_env = \<lparr>gpl_header = ''/* license */'', auto_gen_warning = ''/* generated */'',
                   dict_keys = remdups\<rparr>"

definition Column :: cls where
  "Column = \<lparr>cls_name = ''Column'', cls_comment = None, cls_fields = [
     \<lparr>field_name = ''name'', field_type = ''string'', field_comment = None\<rparr>,
     \<lparr>field_name = ''index'', field_type = ''int'', field_comment = None\<rparr>]\<rparr>"

definition Table :: cls where
  "Table = \<lparr>cls_name = ''Table'', cls_comment = Some ''A table'', cls_fields = [
     \<lparr>field_name = ''name'', field_type = ''string'', field_comment = None\<rparr>,
     \<lparr>field_name = ''isReplicated'', field_type = ''bool'', field_comment = None\<rparr>,
     \<lparr>field_name = ''parent'', field_type = ''Table?'', field_comment = None\<rparr>,
     \<lparr>field_name = ''columns'', field_type = ''Column*'', field_comment = None\<rparr>]\<rparr>"

definition ScenarioTable :: cls where
  "ScenarioTable = \<lparr>cls_name = ''Table'', cls_comment = None, cls_fields = [
     \<lparr>field_name = ''name'', field_type = ''string'', field_comment = None\<rparr>,
     \<lparr>field_name = ''columns'', field_type = ''Column*'', field_comment = None\<rparr>]\<rparr>"



section \<open>Properties of the generator\<close>

subsection \<open>Emission and errors\<close>

lemma write_line_single: "write_line [s] = ([line s], None)"
  by (simp add: write_line_def)

lemma snd_write_line: "snd (write_line args) = None"
  by (simp add: write_line_def)

lemma snd_then_emit:
  "snd (then_emit a b) = (case snd a of Some e \<Rightarrow> Some e | None \<Rightarrow> snd b)"
  by (cases a; cases "snd a") auto

lemma snd_then_emit_None: "snd (then_emit a b) = None \<longleftrightarrow> snd a = None \<and> snd b = None"
  by (simp add: snd_then_emit split: option.splits)

lemma snd_block_None: "snd (block ss) = None \<longleftrightarrow> (\<forall>s\<in>set ss. snd s = None)"
  by (induction ss) (auto simp: skip_def snd_then_emit_None)

lemma snd_for_each_None:
  "snd (for_each xs body) = None \<longleftrightarrow> (\<forall>x\<in>set xs. snd (body x) = None)"
  by (induction xs) (auto simp: skip_def snd_then_emit_None)

lemma for_each_pure:
  assumes "\<And>x. x \<in> set xs \<Longrightarrow> body x = (h x, None)"
  shows "for_each xs body = (concat (map h xs), None)"
  using assms by (induction xs) (auto simp: skip_def)

lemma for_each_succeeds:
  assumes "\<And>x. x \<in> set xs \<Longrightarrow> snd (body x) = None"
  shows "for_each xs body = (concat (map (\<lambda>x. fst (body x)) xs), None)"
  by (rule for_each_pure) (metis assms prod.collapse)

lemma concat_map_if:
  "concat (map (\<lambda>x. if P x then [g x] else []) xs) = map g (filter P xs)"
  by (induction xs) auto

lemma concat_map_filter:
  "concat (map (\<lambda>x. if P x then g x else []) xs) = concat (map g (filter P xs))"
  by (induction xs) auto

subsection \<open>Tokens that classify\<close>

lemma well_typed_iff:
  "well_typed c \<longleftrightarrow> (\<forall>f\<in>set (cls_fields c). spec_classify (field_type f) \<noteq> None)"
  by (simp add: well_typed_def list_all_iff)

lemma classified_nonempty: "spec_classify t \<noteq> None \<Longrightarrow> t \<noteq> []"
  by (auto simp: spec_classify_def)

lemma last_char_last: "t \<noteq> [] \<Longrightarrow> last_char t = Inr (last t)"
  by (cases t) auto

lemma spec_classify_cases [consumes 1, case_names String Int Bool Collection Reference]:
  assumes "spec_classify t \<noteq> None"
  obtains "t = ''string''" "spec_classify t = Some (Scalar SString)"
  | "t = ''int''" "spec_classify t = Some (Scalar SInt)"
  | "t = ''bool''" "spec_classify t = Some (Scalar SBool)"
  | "t \<noteq> ''string''" "t \<noteq> ''int''" "t \<noteq> ''bool''" "t \<noteq> []" "last t = CHR ''*''"
    "spec_classify t = Some (Collection (butlast t))"
  | "t \<noteq> ''string''" "t \<noteq> ''int''" "t \<noteq> ''bool''" "t \<noteq> []" "last t = CHR ''?''"
    "spec_classify t = Some (Reference (butlast t))"
  using assms unfolding spec_classify_def by (auto split: if_splits)

lemma is_collection_iff:
  "is_collection f \<longleftrightarrow> field_type f \<noteq> [] \<and> last (field_type f) = CHR ''*''"
  by (auto simp: is_collection_def spec_classify_def split: option.splits field_kind.splits)

lemma is_scalar_or_reference_iff:
  "is_scalar_or_reference f \<longleftrightarrow>
     spec_classify (field_type f) \<noteq> None \<and> last (field_type f) \<noteq> CHR ''*''"
  by (auto simp: is_scalar_or_reference_def spec_classify_def
           split: option.splits field_kind.splits)

lemma javatypify_classified:
  "spec_classify t \<noteq> None \<Longrightarrow> \<exists>ftype. javatypify t = Inr ftype"
  by (auto simp: spec_classify_def javatypify_def split: if_splits)

lemma cpptypify_classified:
  "spec_classify t \<noteq> None \<Longrightarrow> \<exists>ftype. cpptypify t = Inr ftype"
  by (auto simp: spec_classify_def cpptypify_def split: if_splits)

lemma javatypify_unclassified:
  "spec_classify t = None \<Longrightarrow> javatypify t = Inl (classification_error t)"
  by (auto simp: spec_classify_def javatypify_def classification_error_def split: if_splits)

lemma find_unclassified_None: "find unclassified (cls_fields c) = None \<longleftrightarrow> well_typed c"
  by (auto simp: find_None_iff well_typed_iff unclassified_def)

lemma well_typed_Table: "well_typed Table"
  by (simp add: well_typed_def Table_def spec_classify_def)

lemma well_typed_Column: "well_typed Column"
  by (simp add: well_typed_def Column_def spec_classify_def)



subsection \<open>The classifier inside \<open>javatypify\<close> and \<open>cpptypify\<close>\<close>

text \<open>
  On every token that does not end in a doubled marker the two functions agree with
  the classifier of the specification: they return the type of the token's kind, and
  they raise exactly on the tokens that do not classify.
\<close>

lemma rstrip_single:
  assumes "t \<noteq> []" "last t = m" "\<not> doubled_marker t" "m = CHR ''*'' \<or> m = CHR ''?''"
  shows "rstrip m t = butlast t"
proof -
  from assms(1,2) obtain xs where t: "t = xs @ [m]"
    by (metis append_butlast_last_id)
  have "dropWhile (\<lambda>x. x = m) (rev xs) = rev xs"
    using assms(3,4) unfolding t doubled_marker_def
    by (cases "rev xs") auto
  then show ?thesis by (simp add: t rstrip_def)
qed

lemma typify_refines_classify:
  assumes "\<not> doubled_marker t"
  shows "javatypify t = (case spec_classify t of
                           Some k \<Rightarrow> Inr (java_type_of_kind k)
                         | None \<Rightarrow> Inl (classification_error t))"
    and "cpptypify t = (case spec_classify t of
                           Some k \<Rightarrow> Inr (cpp_type_of_kind k)
                         | None \<Rightarrow> Inl (classification_error t))"
  using assms rstrip_single[of t "CHR ''*''"] rstrip_single[of t "CHR ''?''"]
  by (auto simp: javatypify_def cpptypify_def spec_classify_def java_type_of_kind_def
        cpp_type_of_kind_def classification_error_def)

text \<open>
  C4. The exact tokens \<open>string\<close>, \<open>int\<close> and \<open>bool\<close> aside, a token ending in a
  marker is to classify with the target class named by the token minus its single
  trailing marker character. \<open>javatypify\<close>, \<open>javaobjectify\<close> and \<open>cpptypify\<close>
  strip with \<open>rstrip\<close>, which removes every trailing marker: on \<open>Column**\<close> the
  target is to be \<open>Column*\<close> (which is also what \<open>field.type[:-1]\<close> gives the
  other parts of the generator), and the three functions name \<open>Column\<close>; likewise
  \<open>Table??\<close> becomes \<open>Table\<close> instead of \<open>Table?\<close>.
\<close>

theorem typify_doubled_marker:
  "spec_classify ''Column**'' = Some (Collection ''Column*'')
   \<and> javatypify ''Column**'' = Inr ''CatalogMap<Column>''
   \<and> javaobjectify ''Column**'' = Inr ''CatalogMap<Column>''
   \<and> cpptypify ''Column**'' = Inr ''CatalogMap<Column>''
   \<and> spec_classify ''Table??'' = Some (Reference ''Table?'')
   \<and> javatypify ''Table??'' = Inr ''Table''"
  by (simp add: spec_classify_def javatypify_def javaobjectify_def cpptypify_def rstrip_def)

subsection \<open>The field name lists of the managed backend\<close>

lemma java_getFields_body_classified:
  assumes "spec_classify (field_type f) \<noteq> None"
  shows \<open>java_getFields_body f =
           ((if is_scalar_or_reference f
             then [line (''            "'' @ field_name f @ ''",'')] else []), None)\<close>
  using assms classified_nonempty[OF assms]
  by (auto simp: java_getFields_body_def last_char_last is_scalar_or_reference_iff
        write_line_single skip_def)

lemma java_getChildCollections_body_classified:
  assumes "spec_classify (field_type f) \<noteq> None"
  shows \<open>java_getChildCollections_body f =
           ((if is_collection f
             then [line (''            "'' @ field_name f @ ''",'')] else []), None)\<close>
  using assms classified_nonempty[OF assms]
  by (auto simp: java_getChildCollections_body_def last_char_last is_collection_iff
        write_line_single skip_def)

text \<open>
  C6. For every class whose field tokens all classify, the names that \<open>genjava\<close>
  writes into \<open>getFields()\<close> are exactly the names of the fields classified as Scalar
  or Reference, in descriptor order, and the names written into
  \<open>getChildCollections()\<close> are exactly the names of the fields classified as
  Collection, in descriptor order; nothing else stands between the opening and the
  closing lines of either routine.
\<close>

theorem getFields_getChildCollections_names:
  assumes "well_typed c"
  shows \<open>java_getFields c =
          ([line ''    public String[] getFields() {'',
            line ''        return new String[] {'']
           @ map (\<lambda>n. line (''            "'' @ n @ ''",''))
               (map field_name (filter is_scalar_or_reference (cls_fields c)))
           @ [line ''        };'', line ''    };\<newline>''], None)
       \<and> java_getChildCollections c =
          ([line ''    String[] getChildCollections() {'',
            line ''        return new String[] {'']
           @ map (\<lambda>n. line (''            "'' @ n @ ''",''))
               (map field_name (filter is_collection (cls_fields c)))
           @ [line ''        };'', line ''    };\<newline>''], None)\<close>
proof -
  have classified: "\<And>f. f \<in> set (cls_fields c) \<Longrightarrow> spec_classify (field_type f) \<noteq> None"
    using assms by (simp add: well_typed_iff)
  have "for_each (cls_fields c) java_getFields_body =
          (concat (map (\<lambda>f. if is_scalar_or_reference f
                           then [line (''            \"'' @ field_name f @ ''\",'')] else [])
                     (cls_fields c)), None)"
    by (intro for_each_pure) (simp add: classified java_getFields_body_classified)
  moreover have "for_each (cls_fields c) java_getChildCollections_body =
          (concat (map (\<lambda>f. if is_collection f
                           then [line (''            \"'' @ field_name f @ ''\",'')] else [])
                     (cls_fields c)), None)"
    by (intro for_each_pure) (simp add: classified java_getChildCollections_body_classified)
  ultimately show ?thesis
    by (simp add: java_getFields_def java_getChildCollections_def write_line_single
          concat_map_if skip_def comp_def)
qed

theorem getFields_getChildCollections_names_witness:
  \<open>well_typed Table
   \<and> java_getFields Table =
       (map line [''    public String[] getFields() {'',
                  ''        return new String[] {'',
                  ''            "name",'',
                  ''            "isReplicated",'',
                  ''            "parent",'',
                  ''        };'',
                  ''    };\<newline>''], None)
   \<and> java_getChildCollections Table =
       (map line [''    String[] getChildCollections() {'',
                  ''        return new String[] {'',
                  ''            "columns",'',
                  ''        };'',
                  ''    };\<newline>''], None)\<close>
proof -
  have "filter is_scalar_or_reference (cls_fields Table) = take 3 (cls_fields Table)"
    by (simp add: Table_def is_scalar_or_reference_def spec_classify_def)
  moreover have "filter is_collection (cls_fields Table) = drop 3 (cls_fields Table)"
    by (simp add: Table_def is_collection_def spec_classify_def)
  ultimately show ?thesis
    using getFields_getChildCollections_names [OF well_typed_Table] well_typed_Table
    by (simp add: Table_def)
qed

subsection \<open>Accessor names and the generic getter of the managed backend\<close>

lemma java_getField_body_eq:
  \<open>java_getField_body f =
     ([line (''        case "'' @ field_name f @ ''":''),
       line (''            return get'' @ capitalize (field_name f) @ ''();'')], None)\<close>
  by (simp add: java_getField_body_def write_line_single skip_def Let_def)

lemma java_getters_body_classified:
  assumes "javatypify (field_type f) = Inr ftype"
  shows "snd (java_getters_body f) = None"
    and \<open>line (''    public '' @ ftype @ '' get'' @ capitalize (field_name f) @ ''() {'')
           \<in> set (fst (java_getters_body f))\<close>
  using assms
  by (auto simp: java_getters_body_def write_line_def skip_def Let_def split: option.splits)

text \<open>
  C10. The method name of a field is \<open>capitalize\<close> of the field name: the first
  character in upper case, all others in lower case. For every class whose field tokens
  all classify, \<open>getField(name)\<close> is one \<open>case\<close> per field, in descriptor order,
  returning \<open>get\<close> followed by that method name, and for every field the typed getter
  written by the getter section is declared under the very same name, with the field's
  Java type: every dispatch case targets an emitted method.
\<close>

theorem getField_dispatch_targets_getter:
  assumes "well_typed c"
  shows \<open>java_getField c =
     (map line [''    public Object getField(String field) {'',
                ''        switch (field) {'']
      @ concat (map (\<lambda>f. [line (''        case "'' @ field_name f @ ''":''),
                           line (''            return get'' @ capitalize (field_name f) @ ''();'')])
                  (cls_fields c))
      @ map line [''        default:'',
                  ''            throw new CatalogException("Unknown field");'',
                  ''        }'',
                  ''    }\<newline>''], None)
   \<and> snd (java_getters c) = None
   \<and> (\<forall>f\<in>set (cls_fields c). \<exists>ftype. javatypify (field_type f) = Inr ftype \<and>
         line (''    public '' @ ftype @ '' get'' @ capitalize (field_name f) @ ''() {'')
           \<in> set (fst (java_getters c)))\<close>
proof -
  have dispatch: "for_each (cls_fields c) java_getField_body =
      (concat (map (\<lambda>f. [line (''        case \"'' @ field_name f @ ''\":''),
                           line (''            return get'' @ capitalize (field_name f) @ ''();'')])
                  (cls_fields c)), None)"
    by (intro for_each_pure) (simp add: java_getField_body_eq)
  have typed: "\<And>f. f \<in> set (cls_fields c) \<Longrightarrow> \<exists>ftype. javatypify (field_type f) = Inr ftype"
    using assms by (simp add: well_typed_iff javatypify_classified)
  have ok: "\<And>f. f \<in> set (cls_fields c) \<Longrightarrow> snd (java_getters_body f) = None"
    using typed java_getters_body_classified(1) by blast
  have getters: "java_getters c =
      (concat (map (\<lambda>f. fst (java_getters_body f)) (cls_fields c)), None)"
    unfolding java_getters_def by (rule for_each_succeeds) (rule ok)
  have "\<exists>ftype. javatypify (field_type f) = Inr ftype \<and>
         line (''    public '' @ ftype @ '' get'' @ capitalize (field_name f) @ ''() {'')
           \<in> set (fst (java_getters c))" if "f \<in> set (cls_fields c)" for f
  proof -
    from typed[OF that] obtain ftype where ft: "javatypify (field_type f) = Inr ftype" ..
    from java_getters_body_classified(2)[OF ft] that
    have "line (''    public '' @ ftype @ '' get'' @ capitalize (field_name f) @ ''() {'')
           \<in> set (fst (java_getters c))"
      by (auto simp: getters)
    with ft show ?thesis by blast
  qed
  with dispatch getters show ?thesis
    by (simp add: java_getField_def write_line_single skip_def)
qed

theorem getField_dispatch_targets_getter_witness:
  \<open>well_typed Table
   \<and> java_getField Table =
     (map line [''    public Object getField(String field) {'',
                ''        switch (field) {'',
                ''        case "name":'',
                ''            return getName();'',
                ''        case "isReplicated":'',
                ''            return getIsreplicated();'',
                ''        case "parent":'',
                ''            return getParent();'',
                ''        case "columns":'',
                ''            return getColumns();'',
                ''        default:'',
                ''            throw new CatalogException("Unknown field");'',
                ''        }'',
                ''    }\<newline>''], None)
   \<and> snd (java_getters Table) = None
   \<and> line ''    public String getName() {'' \<in> set (fst (java_getters Table))
   \<and> line ''    public boolean getIsreplicated() {'' \<in> set (fst (java_getters Table))
   \<and> line ''    public Table getParent() {'' \<in> set (fst (java_getters Table))
   \<and> line ''    public CatalogMap<Column> getColumns() {'' \<in> set (fst (java_getters Table))\<close>
  using getField_dispatch_targets_getter [OF well_typed_Table] well_typed_Table
  by (simp add: Table_def javatypify_def rstrip_def upper_char_def lower_char_def)

subsection \<open>The generic setter of the managed backend\<close>

lemma java_set_body_classified:
  assumes "spec_classify (field_type f) \<noteq> None"
  shows "java_set_body f = (map line (spec_set_case f), None)"
  using assms
proof (cases rule: spec_classify_cases)
  case String
  then show ?thesis
    by (simp add: java_set_body_def spec_set_case_def javatypify_def write_line_single
          skip_def Let_def)
next
  case Int
  then show ?thesis
    by (simp add: java_set_body_def spec_set_case_def javatypify_def write_line_single
          skip_def Let_def)
next
  case Bool
  then show ?thesis
    by (simp add: java_set_body_def spec_set_case_def javatypify_def write_line_single
          skip_def Let_def)
next
  case Collection
  then show ?thesis
    by (simp add: java_set_body_def spec_set_case_def last_char_last skip_def Let_def)
next
  case Reference
  then show ?thesis
    by (simp add: java_set_body_def spec_set_case_def javatypify_def last_char_last
          write_line_single skip_def Let_def)
qed

text \<open>
  C5. For every class whose field tokens all classify, the \<open>set(name, value)\<close> routine
  that \<open>genjava\<close> writes is the null check, then one \<open>case\<close> per non-collection
  field, in descriptor order, holding the coercion of \<open>spec_set_case\<close> for the
  field's kind (base-10 parse for int, boolean literal parse for bool, trim, null
  sentinel and quote stripping for string, trim, null sentinel and \<open>setUnresolved\<close>
  for a reference), then a \<open>default\<close> that throws for an unknown field name.
\<close>

theorem java_set_coercions:
  assumes "well_typed c"
  shows \<open>java_set c =
     (map line [
        ''    @Override'',
        ''    void set(String field, String value) {'',
        ''        if ((field == null) || (value == null)) {'',
        ''            throw new CatalogException("Null value where it shouldn't be.");'',
        ''        }\<newline>'',
        ''        switch (field) {'']
      @ concat (map (\<lambda>f. map line (spec_set_case f)) (cls_fields c))
      @ map line [
        ''        default:'',
        ''            throw new CatalogException("Unknown field");'',
        ''        }'',
        ''    }\<newline>''], None)\<close>
proof -
  have "for_each (cls_fields c) java_set_body =
          (concat (map (\<lambda>f. map line (spec_set_case f)) (cls_fields c)), None)"
    using assms by (intro for_each_pure) (simp add: well_typed_iff java_set_body_classified)
  then show ?thesis
    by (simp add: java_set_def write_line_single skip_def)
qed

theorem java_set_coercions_witness:
  \<open>well_typed Column
   \<and> java_set Column =
     (map line [
        ''    @Override'',
        ''    void set(String field, String value) {'',
        ''        if ((field == null) || (value == null)) {'',
        ''            throw new CatalogException("Null value where it shouldn't be.");'',
        ''        }\<newline>'',
        ''        switch (field) {'',
        ''        case "name":'',
        ''            value = value.trim();'',
        ''            if (value.startsWith("null")) value = null;'',
        ''            if (value != null) {'',
        ''                assert(value.startsWith("'' @ [CHR 0x5C] @ ''"") && value.endsWith("''
          @ [CHR 0x5C] @ ''""));'',
        ''                value = value.substring(1, value.length() - 1);'',
        ''            }'',
        ''            m_name = value;'',
        ''            break;'',
        ''        case "index":'',
        ''            assert(value != null);'',
        ''            m_index = Integer.parseInt(value);'',
        ''            break;'',
        ''        default:'',
        ''            throw new CatalogException("Unknown field");'',
        ''        }'',
        ''    }\<newline>''], None)\<close>
  using java_set_coercions [OF well_typed_Column] well_typed_Column
  by (simp add: Column_def spec_set_case_def spec_classify_def)

subsection \<open>\<open>copyFields\<close> of the managed backend\<close>

text \<open>
  \<open>copyFields\<close> tests the Java type of the field before it tests the marker. For a
  class none of whose reference tokens strips to \<open>int\<close>, \<open>boolean\<close> or
  \<open>String\<close> the routine is the one the specification describes.
\<close>

lemma java_copyFields_body_classified:
  assumes "spec_classify (field_type f) \<noteq> None"
    and "last (field_type f) = CHR ''?'' \<Longrightarrow>
           javatypify (field_type f) \<notin> {Inr ''int'', Inr ''boolean'', Inr ''String''}"
  shows "java_copyFields_body f = (map line (spec_copy_case f), None)"
  using assms(1)
proof (cases rule: spec_classify_cases)
  case String
  then show ?thesis
    by (simp add: java_copyFields_body_def spec_copy_case_def javatypify_def write_line_def Let_def)
next
  case Int
  then show ?thesis
    by (simp add: java_copyFields_body_def spec_copy_case_def javatypify_def write_line_def Let_def)
next
  case Bool
  then show ?thesis
    by (simp add: java_copyFields_body_def spec_copy_case_def javatypify_def write_line_def Let_def)
next
  case Collection
  then show ?thesis
    by (simp add: java_copyFields_body_def spec_copy_case_def javatypify_def write_line_def Let_def)
next
  case Reference
  with assms(2) show ?thesis
    by (simp add: java_copyFields_body_def spec_copy_case_def javatypify_def write_line_def Let_def)
qed

lemma java_copyFields_ordinary:
  assumes "well_typed c"
    and "\<And>f. f \<in> set (cls_fields c) \<Longrightarrow> last (field_type f) = CHR ''?'' \<Longrightarrow>
           javatypify (field_type f) \<notin> {Inr ''int'', Inr ''boolean'', Inr ''String''}"
  shows \<open>java_copyFields c =
     (map line [''    @Override'', ''    void copyFields(CatalogType obj) {'']
      @ (if cls_fields c = [] then []
         else map line [''        // this is safe from the caller'',
                        ''        '' @ cls_name c @ '' other = ('' @ cls_name c @ '') obj;\<newline>'']
              @ concat (map (\<lambda>f. map line (spec_copy_case f)) (cls_fields c)))
      @ [line ''    }\<newline>''], None)\<close>
proof -
  have "for_each (cls_fields c) java_copyFields_body =
          (concat (map (\<lambda>f. map line (spec_copy_case f)) (cls_fields c)), None)"
    using assms by (intro for_each_pure) (simp add: well_typed_iff java_copyFields_body_classified)
  then show ?thesis
    by (simp add: java_copyFields_def write_line_def skip_def)
qed

text \<open>
  C8. \<open>copyFields\<close> is to copy a Reference field by its unresolved path. The token
  \<open>String?\<close> classifies as a reference to the class \<open>String\<close>, and the generic
  setter treats the field as a reference (\<open>setUnresolved\<close>), but \<open>copyFields\<close>
  finds the Java type \<open>String\<close> in its list of scalar types first and writes a plain
  assignment, as the storage section declares a plain \<open>String\<close> member for it.
\<close>

theorem copyFields_String_reference:
  \<open>spec_classify ''String?'' = Some (Reference ''String'')
   \<and> java_fields_body \<lparr>field_name = ''owner'', field_type = ''String?'', field_comment = None\<rparr>
       = ([line ''    String m_owner = new String();''], None)
   \<and> java_copyFields_body \<lparr>field_name = ''owner'', field_type = ''String?'', field_comment = None\<rparr>
       = ([line ''        other.m_owner = m_owner;''], None)
   \<and> java_set_body \<lparr>field_name = ''owner'', field_type = ''String?'', field_comment = None\<rparr>
       = (map line [''        case "owner":'',
                    ''            value = value.trim();'',
                    ''            if (value.startsWith("null")) value = null;'',
                    ''            assert((value == null) || value.startsWith("/"));'',
                    ''            m_owner.setUnresolved(value);'',
                    ''            break;''], None)\<close>
  by (simp add: spec_classify_def java_fields_body_def java_copyFields_body_def java_set_body_def
        javatypify_def rstrip_def write_line_def skip_def Let_def)

subsection \<open>\<open>equals\<close> of the managed backend\<close>

lemma collection_java_type:
  assumes "is_collection f"
  shows "javatypify (field_type f) = Inr (''CatalogMap<'' @ rstrip (CHR ''*'') (field_type f) @ ''>'')"
  using assms by (auto simp: is_collection_iff javatypify_def)

lemma java_equals_body_classified:
  assumes "spec_classify (field_type f) \<noteq> None"
  shows "java_equals_body f = (map line (spec_equals_case f), None)"
proof -
  from javatypify_classified[OF assms] obtain ftype
    where "javatypify (field_type f) = Inr ftype" ..
  then show ?thesis
    by (simp add: java_equals_body_def spec_equals_case_def write_line_def skip_def Let_def)
qed

text \<open>
  C1, as the generator has it. For every class whose field tokens all classify,
  \<open>equals\<close> compares every field, in descriptor order, Collection fields included:
  a member whose Java type is \<open>int\<close> or \<open>boolean\<close> with \<open>!=\<close>, every other
  member by a null mismatch test followed by \<open>equals()\<close> on the member; for a
  Collection field it is always the latter, on the child container.
\<close>

theorem equals_compares_every_field:
  assumes "well_typed c"
  shows \<open>java_equals c =
     (map line [
        ''    public boolean equals(Object obj) {'',
        ''        // this isn't really the convention for null handling'',
        ''        if ((obj == null) || (obj.getClass().equals(getClass()) == false))'',
        ''            return false;\<newline>'',
        ''        // Do the identity check'',
        ''        if (obj == this)'',
        ''            return true;\<newline>'',
        ''        // this is safe because of the class check'',
        ''        // it is also known that the childCollections var will be the same'',
        ''        //  from the class check'',
        ''        '' @ cls_name c @ '' other = ('' @ cls_name c @ '') obj;\<newline>'',
        ''        // are the fields / children the same? (deep compare)'']
      @ concat (map (\<lambda>f. map line (spec_equals_case f)) (cls_fields c))
      @ map line [[], ''        return true;'', ''    }\<newline>''], None)
   \<and> (\<forall>f\<in>set (cls_fields c). is_collection f \<longrightarrow>
         spec_equals_case f =
           [''        if ((m_'' @ field_name f @ '' == null) != (other.m_'' @ field_name f
              @ '' == null)) return false;'',
            ''        if ((m_'' @ field_name f @ '' != null) && !m_'' @ field_name f
              @ ''.equals(other.m_'' @ field_name f @ '')) return false;''])\<close>
proof -
  have "for_each (cls_fields c) java_equals_body =
          (concat (map (\<lambda>f. map line (spec_equals_case f)) (cls_fields c)), None)"
    using assms by (intro for_each_pure) (simp add: well_typed_iff java_equals_body_classified)
  then show ?thesis
    by (simp add: java_equals_def write_line_def skip_def spec_equals_case_def
          collection_java_type Let_def)
qed

theorem equals_compares_every_field_witness:
  \<open>well_typed Table
   \<and> java_equals Table =
     (map line [
        ''    public boolean equals(Object obj) {'',
        ''        // this isn't really the convention for null handling'',
        ''        if ((obj == null) || (obj.getClass().equals(getClass()) == false))'',
        ''            return false;\<newline>'',
        ''        // Do the identity check'',
        ''        if (obj == this)'',
        ''            return true;\<newline>'',
        ''        // this is safe because of the class check'',
        ''        // it is also known that the childCollections var will be the same'',
        ''        //  from the class check'',
        ''        Table other = (Table) obj;\<newline>'',
        ''        // are the fields / children the same? (deep compare)'',
        ''        if ((m_name == null) != (other.m_name == null)) return false;'',
        ''        if ((m_name != null) && !m_name.equals(other.m_name)) return false;'',
        ''        if (m_isReplicated != other.m_isReplicated) return false;'',
        ''        if ((m_parent == null) != (other.m_parent == null)) return false;'',
        ''        if ((m_parent != null) && !m_parent.equals(other.m_parent)) return false;'',
        ''        if ((m_columns == null) != (other.m_columns == null)) return false;'',
        ''        if ((m_columns != null) && !m_columns.equals(other.m_columns)) return false;'',
        [],
        ''        return true;'',
        ''    }\<newline>''], None)\<close>
  using equals_compares_every_field [OF well_typed_Table] well_typed_Table
  by (simp add: Table_def spec_equals_case_def javatypify_def rstrip_def is_collection_def
        spec_classify_def)

text \<open>
  The claim that no Collection field is compared fails on the \<open>Table\<close> of the
  specification's own scenario: the container \<open>m_columns\<close> is compared.
\<close>

theorem equals_compares_collection_counterexample:
  \<open>is_collection \<lparr>field_name = ''columns'', field_type = ''Column*'', field_comment = None\<rparr>
   \<and> java_equals ScenarioTable =
     (map line [
        ''    public boolean equals(Object obj) {'',
        ''        // this isn't really the convention for null handling'',
        ''        if ((obj == null) || (obj.getClass().equals(getClass()) == false))'',
        ''            return false;\<newline>'',
        ''        // Do the identity check'',
        ''        if (obj == this)'',
        ''            return true;\<newline>'',
        ''        // this is safe because of the class check'',
        ''        // it is also known that the childCollections var will be the same'',
        ''        //  from the class check'',
        ''        Table other = (Table) obj;\<newline>'',
        ''        // are the fields / children the same? (deep compare)'',
        ''        if ((m_name == null) != (other.m_name == null)) return false;'',
        ''        if ((m_name != null) && !m_name.equals(other.m_name)) return false;'',
        ''        if ((m_columns == null) != (other.m_columns == null)) return false;'',
        ''        if ((m_columns != null) && !m_columns.equals(other.m_columns)) return false;'',
        [],
        ''        return true;'',
        ''    }\<newline>''], None)\<close>
  by (simp add: is_collection_def spec_classify_def java_equals_def java_equals_body_def
        ScenarioTable_def javatypify_def rstrip_def write_line_def skip_def Let_def)

subsection \<open>Forward declarations of the manual backend\<close>

lemma target_of_marker:
  assumes "field_type f \<noteq> []"
  shows "target_of f =
           (if last (field_type f) = CHR ''*'' \<or> last (field_type f) = CHR ''?''
            then Some (butlast (field_type f)) else None)"
  using assms by (auto simp: target_of_def spec_classify_def)

lemma targets_Cons:
  "set (targets (f # fs)) = (case target_of f of Some n \<Rightarrow> {n} | None \<Rightarrow> {}) \<union> set (targets fs)"
  by (auto simp: targets_def split: option.splits)

lemma collect_referenced_result:
  assumes "\<And>f. f \<in> set fs \<Longrightarrow> field_type f \<noteq> []" "distinct acc"
  shows "\<exists>rs. collect_referenced fs acc = Inr rs \<and> distinct rs
              \<and> set rs = set acc \<union> set (targets fs)"
  using assms
proof (induction fs arbitrary: acc)
  case Nil
  then show ?case by (simp add: targets_def)
next
  case (Cons f fs)
  have ne: "field_type f \<noteq> []" using Cons.prems(1) by simp
  have rest: "\<And>g. g \<in> set fs \<Longrightarrow> field_type g \<noteq> []" using Cons.prems(1) by simp
  show ?case
  proof (cases "last (field_type f) = CHR ''*'' \<or> last (field_type f) = CHR ''?''")
    case False
    then have "target_of f = None"
      by (simp add: target_of_marker[OF ne])
    moreover from False have "collect_referenced (f # fs) acc = collect_referenced fs acc"
      using ne by (auto simp: last_char_last Let_def)
    ultimately show ?thesis
      using Cons.IH[OF rest Cons.prems(2)] by (auto simp: targets_Cons)
  next
    case marker: True
    then have one: "target_of f = Some (butlast (field_type f))"
      by (simp add: target_of_marker[OF ne])
    show ?thesis
    proof (cases "butlast (field_type f) \<in> set acc")
      case True
      with marker have "collect_referenced (f # fs) acc = collect_referenced fs acc"
        using ne by (auto simp: last_char_last Let_def)
      then show ?thesis
        using Cons.IH[OF rest Cons.prems(2)] True one by (auto simp: targets_Cons)
    next
      case False
      with marker have "collect_referenced (f # fs) acc
              = collect_referenced fs (acc @ [butlast (field_type f)])"
        using ne by (auto simp: last_char_last Let_def)
      moreover have "distinct (acc @ [butlast (field_type f)])"
        using False Cons.prems(2) by simp
      ultimately show ?thesis
        using Cons.IH[OF rest, of "acc @ [butlast (field_type f)]"] one
        by (auto simp: targets_Cons)
    qed
  qed
qed

lemma referencedClasses_defined:
  assumes "\<forall>f\<in>set (cls_fields c). field_type f \<noteq> []"
  shows "\<exists>rs. referencedClasses c = Inr rs"
  using collect_referenced_result[of "cls_fields c" "[]"] assms
  by (auto simp: referencedClasses_def)

lemma cpp_header_insert:
  \<open>fst (cpp_header e c rs) =
     take 9 (fst (cpp_header e c []))
     @ map (\<lambda>n. line (''class '' @ n @ '';'')) rs
     @ drop 9 (fst (cpp_header e c []))\<close>
  \<open>snd (cpp_header e c rs) = snd (cpp_header e c [])\<close>
proof -
  have fwd: "for_each rs (\<lambda>classType. write_line [''class '' @ classType @ '';''])
               = (map (\<lambda>n. line (''class '' @ n @ '';'')) rs, None)" for rs
    by (induction rs) (auto simp: skip_def write_line_def)
  show \<open>fst (cpp_header e c rs) =
     take 9 (fst (cpp_header e c []))
     @ map (\<lambda>n. line (''class '' @ n @ '';'')) rs
     @ drop 9 (fst (cpp_header e c []))\<close>
    unfolding cpp_header_def Let_def fwd by (simp add: write_line_def skip_def)
  show \<open>snd (cpp_header e c rs) = snd (cpp_header e c [])\<close>
    unfolding cpp_header_def Let_def fwd by (simp add: write_line_def skip_def)
qed

text \<open>
  C7. For every class whose field tokens are non-empty (on an empty token
  \<open>field.type[-1]\<close> raises before the header is opened), \<open>referencedClasses\<close> is a
  list without repetition whose elements are exactly the target class names of the
  class's Reference and Collection fields, the class's own name excluded; and the header
  written for the class is the header without forward declarations with one line
  \<open>class N;\<close> for each of these names, and nothing else, inserted after the opening
  of the namespace.
\<close>

theorem forward_declarations:
  assumes "\<forall>f\<in>set (cls_fields c). field_type f \<noteq> []"
  shows \<open>\<exists>rs. referencedClasses c = Inr rs \<and> distinct rs
          \<and> set rs = set (targets (cls_fields c)) - {cls_name c}
          \<and> fst (cpp_header e c rs) =
               take 9 (fst (cpp_header e c []))
               @ map (\<lambda>n. line (''class '' @ n @ '';'')) rs
               @ drop 9 (fst (cpp_header e c []))
          \<and> snd (cpp_header e c rs) = snd (cpp_header e c [])\<close>
proof -
  from collect_referenced_result[of "cls_fields c" "[]"] assms
  obtain collected where collected: "collect_referenced (cls_fields c) [] = Inr collected"
      "distinct collected" "set collected = set (targets (cls_fields c))"
    by auto
  let ?rs = "if cls_name c \<in> set collected then remove1 (cls_name c) collected else collected"
  have "referencedClasses c = Inr ?rs"
    by (simp add: referencedClasses_def collected(1))
  moreover have "distinct ?rs"
    using collected(2) by simp
  moreover have "set ?rs = set (targets (cls_fields c)) - {cls_name c}"
    using collected(2,3) by auto
  moreover note cpp_header_insert[of e c ?rs]
  ultimately show ?thesis by blast
qed

theorem forward_declarations_witness:
  \<open>referencedClasses Table = Inr [''Column'']
   \<and> set (targets (cls_fields Table)) - {cls_name Table} = {''Column''}
   \<and> fst (cpp_header example_env Table [''Column'']) =
        take 9 (fst (cpp_header example_env Table []))
        @ [line ''class Column;'']
        @ drop 9 (fst (cpp_header example_env Table []))\<close>
proof -
  have nonempty: "\<forall>f\<in>set (cls_fields Table). field_type f \<noteq> []"
    by (simp add: Table_def)
  have computed: "referencedClasses Table = Inr [''Column'']"
    by (simp add: referencedClasses_def Table_def Let_def)
  from forward_declarations [OF nonempty, of example_env] computed
  show ?thesis by auto
qed

subsection \<open>\<open>update()\<close> of the manual backend\<close>

lemma cpp_update_body_classified:
  assumes "spec_classify (field_type f) \<noteq> None"
  shows "cpp_update_body f = (map line (spec_update_line f), None)"
  using assms
proof (cases rule: spec_classify_cases)
  case String
  then show ?thesis
    by (simp add: cpp_update_body_def spec_update_line_def spec_update_member_def cpptypify_def
          write_line_def skip_def Let_def)
next
  case Int
  then show ?thesis
    by (simp add: cpp_update_body_def spec_update_line_def spec_update_member_def cpptypify_def
          write_line_def skip_def Let_def)
next
  case Bool
  then show ?thesis
    by (simp add: cpp_update_body_def spec_update_line_def spec_update_member_def cpptypify_def
          write_line_def skip_def Let_def)
next
  case Collection
  then show ?thesis
    by (simp add: cpp_update_body_def spec_update_line_def spec_update_member_def cpptypify_def
          write_line_def skip_def Let_def)
next
  case Reference
  then show ?thesis
    by (simp add: cpp_update_body_def spec_update_line_def spec_update_member_def cpptypify_def
          write_line_def skip_def Let_def)
qed

text \<open>
  C2, as the generator has it. For every class whose field tokens all classify,
  \<open>update()\<close> holds, per non-collection field in descriptor order, exactly one
  assignment of a member of the field's entry in the value table to the field's
  storage: \<open>typeValue\<close> for a reference, \<open>strValue.c_str()\<close> for a string,
  \<open>intValue\<close> for an int and for a bool. No parsing, quote stripping or null
  sentinel test is written into \<open>update()\<close>.
\<close>

theorem update_copies_typed_members:
  assumes "well_typed c"
  shows \<open>cpp_update c =
     ([line (''void '' @ cls_name c @ ''::update() {'')]
      @ concat (map (\<lambda>f. map line (spec_update_line f)) (cls_fields c))
      @ [line ''}\<newline>''], None)\<close>
proof -
  have "for_each (cls_fields c) cpp_update_body =
          (concat (map (\<lambda>f. map line (spec_update_line f)) (cls_fields c)), None)"
    using assms by (intro for_each_pure) (simp add: well_typed_iff cpp_update_body_classified)
  then show ?thesis
    by (simp add: cpp_update_def write_line_def skip_def)
qed

theorem update_copies_typed_members_witness:
  \<open>well_typed Column
   \<and> cpp_update Column =
     (map line [''void Column::update() {'',
                ''    m_name = m_fields["name"].strValue.c_str();'',
                ''    m_index = m_fields["index"].intValue;'',
                ''}\<newline>''], None)\<close>
  using update_copies_typed_members [OF well_typed_Column] well_typed_Column
  by (simp add: Column_def spec_update_line_def spec_update_member_def spec_classify_def)

text \<open>
  The claim that \<open>update()\<close> carries the coercion rules of the managed \<open>set\<close> fails
  on \<open>Table\<close>: the whole routine is three assignments of already typed members,
  while the \<open>set\<close> arm of the string field \<open>name\<close> trims, tests the null sentinel
  and strips the quotes.
\<close>

theorem update_no_coercion_counterexample:
  \<open>cpp_update Table =
     (map line [''void Table::update() {'',
                ''    m_name = m_fields["name"].strValue.c_str();'',
                ''    m_isReplicated = m_fields["isReplicated"].intValue;'',
                ''    m_parent = m_fields["parent"].typeValue;'',
                ''}\<newline>''], None)
   \<and> java_set_body \<lparr>field_name = ''name'', field_type = ''string'', field_comment = None\<rparr> =
     (map line [''        case "name":'',
                ''            value = value.trim();'',
                ''            if (value.startsWith("null")) value = null;'',
                ''            if (value != null) {'',
                ''                assert(value.startsWith("'' @ [CHR 0x5C] @ ''"") && value.endsWith("''
                  @ [CHR 0x5C] @ ''""));'',
                ''                value = value.substring(1, value.length() - 1);'',
                ''            }'',
                ''            m_name = value;'',
                ''            break;''], None)\<close>
  by (simp add: cpp_update_def cpp_update_body_def java_set_body_def Table_def cpptypify_def
        javatypify_def rstrip_def write_line_def skip_def Let_def)

subsection \<open>Child dispatch of the manual backend\<close>

lemma cpp_addChild_body_classified:
  assumes "spec_classify (field_type f) \<noteq> None"
  shows "cpp_addChild_body f = ((if is_collection f then map line (spec_addChild_case f) else []), None)"
  using assms classified_nonempty[OF assms]
  by (simp add: cpp_addChild_body_def spec_addChild_case_def last_char_last is_collection_iff
        write_line_def skip_def Let_def)

lemma cpp_removeChild_body_classified:
  assumes "spec_classify (field_type f) \<noteq> None"
  shows "cpp_removeChild_body f =
           ((if is_collection f then map line (spec_removeChild_case f) else []), None)"
  using assms classified_nonempty[OF assms]
  by (simp add: cpp_removeChild_body_def spec_removeChild_case_def last_char_last
        is_collection_iff write_line_def skip_def Let_def)

lemma cpp_constructor_body_classified:
  assumes "spec_classify (field_type f) \<noteq> None"
  shows "cpp_constructor_body f = ([line (spec_register_line f)], None)"
proof -
  from cpptypify_classified[OF assms] obtain ftype
    where "cpptypify (field_type f) = Inr ftype" ..
  then show ?thesis
    using classified_nonempty[OF assms]
    by (simp add: cpp_constructor_body_def spec_register_line_def is_collection_iff
          write_line_def Let_def)
qed

lemma select_fields_nonempty:
  assumes "\<And>f. f \<in> set fs \<Longrightarrow> field_type f \<noteq> []"
  shows "select_fields p fs = Inr (filter (\<lambda>f. p (last (field_type f))) fs)"
  using assms by (induction fs) (auto simp: last_char_last)

text \<open>
  C9. For every class whose field tokens all classify: \<open>addChild\<close> has one arm per
  collection field, which returns \<open>NULL\<close> when the container already has a child of
  that name and otherwise returns what the container's \<open>add\<close> creates, and returns
  \<open>NULL\<close> for any other collection name; \<open>removeChild\<close> first asserts that the
  collection name is a key of \<open>m_childCollections\<close>, then has one arm per collection
  field returning the boolean of the container's \<open>remove\<close>, with no assertion on the
  child; and the constructor registers exactly the collection fields in
  \<open>m_childCollections\<close>.
\<close>

theorem addChild_removeChild_emitted:
  assumes "well_typed c"
  shows \<open>cpp_addChild c =
     ([line (''CatalogType * '' @ cls_name c
         @ ''::addChild(const std::string &collectionName, const std::string &childName) {'')]
      @ concat (map (\<lambda>f. map line (spec_addChild_case f)) (filter is_collection (cls_fields c)))
      @ [line ''    return NULL;\<newline>}\<newline>''], None)
   \<and> cpp_removeChild c =
     ([line (''bool '' @ cls_name c
         @ ''::removeChild(const std::string &collectionName, const std::string &childName) {''),
       line ''    assert (m_childCollections.find(collectionName) != m_childCollections.end());'']
      @ concat (map (\<lambda>f. map line (spec_removeChild_case f)) (filter is_collection (cls_fields c)))
      @ [line ''    return false;'', line ''}\<newline>''], None)
   \<and> for_each (cls_fields c) cpp_constructor_body =
       (map (\<lambda>f. line (spec_register_line f)) (cls_fields c), None)\<close>
proof -
  have classified: "\<And>f. f \<in> set (cls_fields c) \<Longrightarrow> spec_classify (field_type f) \<noteq> None"
    using assms by (simp add: well_typed_iff)
  have "for_each (cls_fields c) cpp_addChild_body =
          (concat (map (\<lambda>f. if is_collection f then map line (spec_addChild_case f) else [])
             (cls_fields c)), None)"
    by (intro for_each_pure) (simp add: classified cpp_addChild_body_classified)
  moreover have "for_each (cls_fields c) cpp_removeChild_body =
          (concat (map (\<lambda>f. if is_collection f then map line (spec_removeChild_case f) else [])
             (cls_fields c)), None)"
    by (intro for_each_pure) (simp add: classified cpp_removeChild_body_classified)
  moreover have "for_each (cls_fields c) cpp_constructor_body =
          (concat (map (\<lambda>f. [line (spec_register_line f)]) (cls_fields c)), None)"
    by (intro for_each_pure) (simp add: classified cpp_constructor_body_classified)
  ultimately show ?thesis
    by (simp add: cpp_addChild_def cpp_removeChild_def write_line_def skip_def
          concat_map_filter)
qed

theorem addChild_removeChild_emitted_witness:
  \<open>well_typed Table
   \<and> cpp_addChild Table =
     (map line [
        ''CatalogType * Table::addChild(const std::string &collectionName, const std::string &childName) {'',
        ''    if (collectionName.compare("columns") == 0) {'',
        ''        CatalogType *exists = m_columns.get(childName);'',
        ''        if (exists)\<newline>            return NULL;'',
        ''        return m_columns.add(childName);\<newline>    }'',
        ''    return NULL;\<newline>}\<newline>''], None)
   \<and> cpp_removeChild Table =
     (map line [
        ''bool Table::removeChild(const std::string &collectionName, const std::string &childName) {'',
        ''    assert (m_childCollections.find(collectionName) != m_childCollections.end());'',
        ''    if (collectionName.compare("columns") == 0) {'',
        ''        return m_columns.remove(childName);'',
        ''    }'',
        ''    return false;'',
        ''}\<newline>''], None)
   \<and> for_each (cls_fields Table) cpp_constructor_body =
     (map line [
        ''    m_fields["name"] = value;'',
        ''    m_fields["isReplicated"] = value;'',
        ''    m_fields["parent"] = value;'',
        ''    m_childCollections["columns"] = &m_columns;''], None)\<close>
  using addChild_removeChild_emitted [OF well_typed_Table] well_typed_Table
  by (simp add: Table_def spec_addChild_case_def spec_removeChild_case_def
        spec_register_line_def is_collection_def spec_classify_def)

subsection \<open>A whole run\<close>

lemma java_fields_body_unclassified:
  "unclassified f \<Longrightarrow> java_fields_body f = ([], Some (classification_error (field_type f)))"
  by (simp add: unclassified_def java_fields_body_def javatypify_unclassified raise_def)

lemma java_bodies_succeed:
  assumes "spec_classify (field_type f) \<noteq> None"
  shows "snd (java_fields_body f) = None"
    and "snd (java_setBaseValues_body f) = None"
    and "snd (java_getFields_body f) = None"
    and "snd (java_getChildCollections_body f) = None"
    and "snd (java_getField_body f) = None"
    and "snd (java_getters_body f) = None"
    and "snd (java_setters_body f) = None"
    and "snd (java_set_body f) = None"
    and "snd (java_copyFields_body f) = None"
    and "snd (java_equals_body f) = None"
proof -
  from javatypify_classified[OF assms] obtain ftype
    where ft: "javatypify (field_type f) = Inr ftype" ..
  note ne = classified_nonempty[OF assms]
  show "snd (java_fields_body f) = None"
    by (simp add: java_fields_body_def ft write_line_def Let_def)
  show "snd (java_setBaseValues_body f) = None"
    by (simp add: java_setBaseValues_body_def ft write_line_def skip_def Let_def)
  show "snd (java_getFields_body f) = None"
    by (simp add: java_getFields_body_classified[OF assms])
  show "snd (java_getChildCollections_body f) = None"
    by (simp add: java_getChildCollections_body_classified[OF assms])
  show "snd (java_getField_body f) = None"
    by (simp add: java_getField_body_eq)
  show "snd (java_getters_body f) = None"
    by (rule java_getters_body_classified(1)[OF ft])
  show "snd (java_setters_body f) = None"
    by (simp add: java_setters_body_def ft write_line_def skip_def Let_def snd_then_emit
          split: option.splits)
  show "snd (java_set_body f) = None"
    by (simp add: java_set_body_classified[OF assms])
  show "snd (java_copyFields_body f) = None"
    by (simp add: java_copyFields_body_def ft write_line_def skip_def Let_def)
  show "snd (java_equals_body f) = None"
    by (simp add: java_equals_body_classified[OF assms])
qed

lemma snd_java_preamble: "snd (java_preamble e package c) = None"
  by (simp add: java_preamble_def write_line_def skip_def snd_then_emit split: option.splits)

lemma genjava_class_succeeds:
  assumes "well_typed c"
  shows "snd (genjava_class e package c) = None"
proof -
  have classified: "\<And>f. f \<in> set (cls_fields c) \<Longrightarrow> spec_classify (field_type f) \<noteq> None"
    using assms by (simp add: well_typed_iff)
  have "snd (java_fields c) = None" "snd (java_setBaseValues c) = None"
    "snd (java_getFields c) = None" "snd (java_getChildCollections c) = None"
    "snd (java_getField c) = None" "snd (java_getters c) = None"
    "snd (java_setters c) = None" "snd (java_set c) = None"
    "snd (java_copyFields c) = None" "snd (java_equals c) = None"
    unfolding java_fields_def java_setBaseValues_def java_getFields_def
      java_getChildCollections_def java_getField_def java_getters_def java_setters_def
      java_set_def java_copyFields_def java_equals_def
    by (simp_all add: snd_then_emit_None snd_for_each_None snd_write_line classified
          java_bodies_succeed skip_def)
  then show ?thesis
    by (simp add: genjava_class_def snd_then_emit_None snd_java_preamble snd_write_line skip_def)
qed

lemma for_each_java_fields:
  "for_each fs java_fields_body =
     (fst (for_each (takeWhile (\<lambda>f. \<not> unclassified f) fs) java_fields_body),
      (case find unclassified fs of
         None \<Rightarrow> None
       | Some f \<Rightarrow> Some (classification_error (field_type f))))"
proof (induction fs)
  case Nil
  show ?case by (simp add: skip_def)
next
  case (Cons f fs)
  show ?case
  proof (cases "unclassified f")
    case True
    then show ?thesis by (simp add: java_fields_body_unclassified skip_def)
  next
    case False
    then have "snd (java_fields_body f) = None"
      by (simp add: unclassified_def java_bodies_succeed(1))
    then obtain ls where "java_fields_body f = (ls, None)"
      by (metis prod.collapse)
    with False Cons.IH show ?thesis by simp
  qed
qed

lemma genjava_class_aborts:
  assumes "find unclassified (cls_fields c) = Some f"
  shows "genjava_class e package c =
           (fst (java_preamble e package c)
            @ fst (for_each (takeWhile (\<lambda>f. \<not> unclassified f) (cls_fields c)) java_fields_body),
            Some (classification_error (field_type f)))"
proof -
  obtain ps where ps: "java_preamble e package c = (ps, None)"
    by (metis prod.collapse snd_java_preamble)
  show ?thesis
    unfolding genjava_class_def java_fields_def
    by (simp add: ps for_each_java_fields[of "cls_fields c"] assms)
qed

text \<open>
  So the file of a class is written to its end exactly when the class is well typed:
  the hypothesis \<open>well_typed c\<close> of the statements about the emitted routines says
  that the routines are emitted at all.
\<close>

lemma genjava_class_succeeds_iff:
  "snd (genjava_class e package c) = None \<longleftrightarrow> well_typed c"
proof
  assume "well_typed c"
  then show "snd (genjava_class e package c) = None"
    by (rule genjava_class_succeeds)
next
  assume complete: "snd (genjava_class e package c) = None"
  show "well_typed c"
  proof (cases "find unclassified (cls_fields c)")
    case None
    then show ?thesis by (simp add: find_unclassified_None)
  next
    case (Some f)
    from genjava_class_aborts[OF Some, of e package] complete show ?thesis by simp
  qed
qed






text \<open>
  When every class is well typed the run completes: every section of both emitters
  succeeds on every class.
\<close>

lemma cpp_bodies_succeed:
  assumes "spec_classify (field_type f) \<noteq> None"
  shows "snd (cpp_constructor_body f) = None"
    and "snd (cpp_destructor_body f) = None"
    and "snd (cpp_update_body f) = None"
    and "snd (cpp_addChild_body f) = None"
    and "snd (cpp_getChild_body f) = None"
    and "snd (cpp_removeChild_body f) = None"
    and "snd (cpp_getters_body clsname f) = None"
proof -
  from cpptypify_classified[OF assms] obtain ftype
    where ft: "cpptypify (field_type f) = Inr ftype" ..
  note ne = classified_nonempty[OF assms]
  show "snd (cpp_constructor_body f) = None"
    by (simp add: cpp_constructor_body_classified[OF assms])
  show "snd (cpp_destructor_body f) = None"
    by (simp add: cpp_destructor_body_def last_char_last[OF ne] write_line_def skip_def Let_def)
  show "snd (cpp_update_body f) = None"
    by (simp add: cpp_update_body_classified[OF assms])
  show "snd (cpp_addChild_body f) = None"
    by (simp add: cpp_addChild_body_classified[OF assms])
  show "snd (cpp_getChild_body f) = None"
    by (simp add: cpp_getChild_body_def last_char_last[OF ne] write_line_def skip_def Let_def)
  show "snd (cpp_removeChild_body f) = None"
    by (simp add: cpp_removeChild_body_classified[OF assms])
  show "snd (cpp_getters_body clsname f) = None"
    by (simp add: cpp_getters_body_def ft write_line_def skip_def Let_def)
qed

lemma cpp_header_succeeds:
  assumes "well_typed c"
  shows "snd (cpp_header e c rs) = None"
proof -
  have typed: "\<And>f. f \<in> set (cls_fields c) \<Longrightarrow> \<exists>ftype. cpptypify (field_type f) = Inr ftype"
    using assms by (simp add: well_typed_iff cpptypify_classified)
  show ?thesis
    unfolding cpp_header_def Let_def
    by (auto simp: snd_then_emit_None snd_for_each_None snd_write_line skip_def
          dest!: typed split: option.splits)
qed

lemma cpp_source_succeeds:
  assumes "well_typed c"
  shows "snd (cpp_source e c) = None"
proof -
  have classified: "\<And>f. f \<in> set (cls_fields c) \<Longrightarrow> spec_classify (field_type f) \<noteq> None"
    using assms by (simp add: well_typed_iff)
  have sel: "select_fields p (cls_fields c)
               = Inr (filter (\<lambda>f. p (last (field_type f))) (cls_fields c))" for p
    by (rule select_fields_nonempty) (simp add: classified classified_nonempty)
  have "snd (cpp_includes e c) = None" "snd (cpp_constructor c) = None"
    "snd (cpp_destructor c) = None" "snd (cpp_update c) = None"
    "snd (cpp_addChild c) = None" "snd (cpp_getChild c) = None"
    "snd (cpp_removeChild c) = None" "snd (cpp_getters c) = None"
    unfolding cpp_includes_def cpp_constructor_def cpp_destructor_def cpp_update_def
      cpp_addChild_def cpp_getChild_def cpp_removeChild_def cpp_getters_def Let_def sel
    by (simp_all add: snd_then_emit_None snd_for_each_None snd_write_line classified
          cpp_bodies_succeed skip_def)
  then show ?thesis
    by (simp add: cpp_source_def snd_then_emit_None skip_def)
qed

lemma genjava_classes_complete:
  assumes "\<forall>c\<in>set cs. well_typed c"
  shows "genjava_classes e postpath package cs w =
           (None, w\<lparr>files := fold (\<lambda>x m. m(javapath postpath x \<mapsto> fst (genjava_class e package x)))
                                cs (files w)\<rparr>)"
  using assms
  by (induction cs arbitrary: w) (simp_all add: write_file_def genjava_class_succeeds)

lemma gencpp_classes_complete:
  assumes "\<forall>c\<in>set cs. well_typed c"
  shows "fst (gencpp_classes e postpath cs w) = None"
  using assms
proof (induction cs arbitrary: w)
  case Nil
  show ?case by simp
next
  case (Cons c cs)
  then have wt: "well_typed c" by simp
  then have "\<forall>f\<in>set (cls_fields c). field_type f \<noteq> []"
    using classified_nonempty by (fastforce simp: well_typed_iff)
  from referencedClasses_defined[OF this] obtain rs where "referencedClasses c = Inr rs" ..
  with Cons wt show ?case
    by (simp add: write_file_def cpp_header_succeeds cpp_source_succeeds)
qed

lemma main_completes:
  assumes "\<forall>c\<in>set classes. well_typed c"
  shows "fst (main e classes w) = None"
  using assms
  by (simp add: main_def genjava_def gencpp_def genjava_classes_complete
        gencpp_classes_complete)






end
